theory Spec2Isabelle
  imports Complex_Main
begin

text \<open>
  A shallow embedding of the indicator engine, the signal scorer, the outcome predictor and
  the per-cryptocurrency analysis of the crypto signal bot, and the properties of them that
  its specification states.  Each Go function is a HOL function of the same name; a struct
  is a record, a loop is a recursive function, and a panic is a value.
\<close>

section \<open>Go runtime: panics, machine integers, slices\<close>

text \<open>
  A run-time panic of the Go program is a value: every function that can index a slice
  out of range, divide a decimal by zero, dereference a nil pointer or make a decimal
  of a float64 that is not finite returns
  \<open>go_panic + 'a\<close>, with \<open>Inl\<close> for the panic.
\<close>

datatype go_panic =
    IndexOutOfRange | SliceBoundsOutOfRange | DivisionByZero | NilDereference | NonFiniteFloat

definition bind :: "go_panic + 'a \<Rightarrow> ('a \<Rightarrow> go_panic + 'b) \<Rightarrow> go_panic + 'b" where
  "bind r f = (case r of Inl e \<Rightarrow> Inl e | Inr v \<Rightarrow> f v)"

text \<open>
  Go's \<open>int\<close> is a 64-bit two's-complement integer on the platforms the bot is built
  for; \<open>+\<close> and \<open>-\<close> wrap around silently.  It is an \<open>int\<close> here, with the
  wrap-around written out wherever an operand is a caller-supplied period.
\<close>

definition MaxInt :: int where
  "MaxInt = 2 ^ 63 - 1"

definition wrap64 :: "int \<Rightarrow> int" where
  "wrap64 x = (x + 2 ^ 63) mod 2 ^ 64 - 2 ^ 63"

text \<open>\<open>xs[lo:]\<close>: panics unless \<open>0 \<le> lo \<le> len(xs)\<close>.\<close>

definition slice_from :: "'a list \<Rightarrow> int \<Rightarrow> go_panic + 'a list" where
  "slice_from xs lo =
     (if 0 \<le> lo \<and> lo \<le> int (length xs) then Inr (drop (nat lo) xs)
      else Inl SliceBoundsOutOfRange)"

text \<open>The elements that \<open>xs[len(xs)-n:]\<close> holds: the last \<open>n\<close> of \<open>xs\<close>.\<close>

definition last_bars :: "int \<Rightarrow> 'a list \<Rightarrow> 'a list" where
  "last_bars n xs = drop (nat (int (length xs) - n)) xs"

text \<open>\<open>xs[:hi]\<close>: panics unless \<open>0 \<le> hi \<le> cap(xs)\<close>; the capacity is the length here.\<close>

definition slice_to :: "'a list \<Rightarrow> int \<Rightarrow> go_panic + 'a list" where
  "slice_to xs hi =
     (if 0 \<le> hi \<and> hi \<le> int (length xs) then Inr (take (nat hi) xs)
      else Inl SliceBoundsOutOfRange)"

section \<open>Decimals\<close>

text \<open>
  \<open>decimal.Decimal\<close> (shopspring) is an arbitrary-precision decimal: \<open>Add\<close>,
  \<open>Sub\<close>, \<open>Mul\<close>, \<open>Abs\<close> and the comparisons are exact, so a decimal is a
  rational number here.  \<open>Div\<close> is not exact: it is \<open>DivRound\<close> at
  \<open>DivisionPrecision = 16\<close> digits after the point, rounding half away from zero, and
  it panics on a zero divisor.
\<close>

type_synonym decimal = rat

definition DivisionPrecision :: nat where
  "DivisionPrecision = 16"

definition round_half_away :: "rat \<Rightarrow> int" where
  "round_half_away x = (if 0 \<le> x then \<lfloor>x + 1 / 2\<rfloor> else - \<lfloor>1 / 2 - x\<rfloor>)"

definition round_to :: "nat \<Rightarrow> rat \<Rightarrow> decimal" where
  "round_to precision x = of_int (round_half_away (x * 10 ^ precision)) / 10 ^ precision"

definition DivRound :: "decimal \<Rightarrow> decimal \<Rightarrow> nat \<Rightarrow> go_panic + decimal" where
  "DivRound d d2 precision =
     (if d2 = 0 then Inl DivisionByZero else Inr (round_to precision (d / d2)))"

definition Div :: "decimal \<Rightarrow> decimal \<Rightarrow> go_panic + decimal" where
  "Div d d2 = DivRound d d2 DivisionPrecision"

section \<open>float64\<close>

text \<open>
  A finite float64 is the rational number it stands for.  Its magnitude is an integer
  multiple, below \<open>2 ^ 53\<close>, of a power of two that is \<open>2 ^ (e - 52)\<close> for a magnitude in
  \<open>[2 ^ e, 2 ^ (e + 1))\<close> and never less than \<open>2 ^ (-1074)\<close>.
\<close>

text \<open>The number of binary digits of a positive integer.\<close>

function bit_length :: "int \<Rightarrow> int" where
  "bit_length n = (if n \<le> 0 then 0 else 1 + bit_length (n div 2))"
  by pat_completeness auto
termination
  by (relation "measure nat") auto

declare bit_length.simps [simp del]

definition pow2 :: "int \<Rightarrow> rat" where
  "pow2 e = (if 0 \<le> e then 2 ^ nat e else 1 / 2 ^ nat (- e))"

text \<open>The \<open>e\<close> with \<open>2 ^ e \<le> a < 2 ^ (e + 1)\<close>, for a positive \<open>a\<close>.\<close>

definition ilog2 :: "rat \<Rightarrow> int" where
  "ilog2 a =
     (case quotient_of a of (p, q) \<Rightarrow>
        let e = bit_length p - bit_length q
        in if pow2 e \<le> a then e else e - 1)"

text \<open>The spacing of the float64 values around a positive magnitude.\<close>

definition float64_quantum :: "rat \<Rightarrow> rat" where
  "float64_quantum a = pow2 (max (ilog2 a) (- 1022) - 52)"

definition round_half_even :: "rat \<Rightarrow> int" where
  "round_half_even y =
     (let f = \<lfloor>y\<rfloor>; r = y - of_int f
      in if r < 1 / 2 then f else if r > 1 / 2 then f + 1 else if even f then f else f + 1)"

text \<open>
  The float64 nearest to a real number, ties to the even multiple, as IEEE 754 arithmetic
  rounds every result.  The largest exponent is not modelled: the one float64 operation of
  the scorer on a value of the configuration is a division by 100, which cannot overflow.
\<close>

definition float64_round :: "rat \<Rightarrow> rat" where
  "float64_round x =
     (if x = 0 then 0
      else sgn x * of_int (round_half_even (\<bar>x\<bar> / float64_quantum \<bar>x\<bar>)) * float64_quantum \<bar>x\<bar>)"

text \<open>\<open>a / b\<close> on float64 values, for a \<open>b\<close> that is not zero.\<close>

definition float64_div :: "rat \<Rightarrow> rat \<Rightarrow> rat" where
  "float64_div a b = float64_round (a / b)"

subsection \<open>decimal.NewFromFloat\<close>

text \<open>
  \<open>NewFromFloat\<close> makes of a float64 the shortest decimal that reads back as the same
  float64.  It takes the halfway points to the two neighbouring float64 values (which
  stand for the value themselves when its multiple is even), walks down the decimal
  positions from the leading digit of the upper one, and stops at the first position at
  which the value cut off there, or the value cut off there plus one unit of the position,
  lies between the halfway points; where both do, it takes the nearer one.
\<close>

primrec grow10 :: "nat \<Rightarrow> rat \<Rightarrow> rat \<Rightarrow> rat" where
  "grow10 0 hi g = g"
| "grow10 (Suc n) hi g = (if 10 * g \<le> hi then grow10 n hi (10 * g) else g)"

primrec shrink10 :: "nat \<Rightarrow> rat \<Rightarrow> rat \<Rightarrow> rat" where
  "shrink10 0 hi g = g"
| "shrink10 (Suc n) hi g = (if g > hi then shrink10 n hi (g / 10) else g)"

text \<open>The unit of the leading decimal digit of \<open>hi\<close>; a float64 has fewer than 400 digits
  on either side of the point.\<close>

definition leading_unit :: "rat \<Rightarrow> rat" where
  "leading_unit hi = (if 1 \<le> hi then grow10 400 hi 1 else shrink10 400 hi 1)"

text \<open>The walk down the positions, \<open>g\<close> being the unit of the position; it ends after 17
  digits at the latest.\<close>

primrec round_shortest :: "nat \<Rightarrow> rat \<Rightarrow> rat \<Rightarrow> rat \<Rightarrow> bool \<Rightarrow> rat \<Rightarrow> rat" where
  "round_shortest 0 g lower a inclusive upper = a"
| "round_shortest (Suc n) g lower a inclusive upper =
     (let down = of_int \<lfloor>a / g\<rfloor> * g;
          up = down + g;
          okdown = (lower < down \<or> inclusive \<and> lower = down);
          okup = (up < upper \<or> inclusive \<and> up = upper)
      in if okdown \<and> okup then
           (if a - down < g / 2 then down
            else if a - down > g / 2 then up
            else if even \<lfloor>a / g\<rfloor> then down else up)
         else if okdown then down
         else if okup then up
         else round_shortest n (g / 10) lower a inclusive upper)"

definition NewFromFloat :: "rat \<Rightarrow> decimal" where
  "NewFromFloat v =
     (if v = 0 then 0
      else
        let a = \<bar>v\<bar>;
            q = float64_quantum a;
            mant = \<lfloor>a / q\<rfloor>;
            upper = a + q / 2;
            lower = (if mant = 2 ^ 52 \<and> ilog2 a > - 1022 then a - q / 4 else a - q / 2)
        in sgn v * round_shortest 40 (leading_unit upper) lower a (even mant) upper)"

section \<open>Indicator engine (technical\_analyzer.go)\<close>

subsection \<open>calculateSMA\<close>

text \<open>\<open>for i := start; i < len(prices); i++ { sum = sum.Add(prices[i]) }\<close>\<close>

function sum_loop :: "decimal list \<Rightarrow> int \<Rightarrow> decimal \<Rightarrow> go_panic + decimal" where
  "sum_loop prices i acc =
     (if i < int (length prices) then
        (if 0 \<le> i then sum_loop prices (i + 1) (acc + prices ! nat i)
         else Inl IndexOutOfRange)
      else Inr acc)"
  by pat_completeness auto
termination
  by (relation "measure (\<lambda>(prices, i, acc). nat (int (length prices) - i))") auto

definition calculateSMA :: "decimal list \<Rightarrow> int \<Rightarrow> go_panic + decimal" where
  "calculateSMA prices period =
     (if int (length prices) < period then Inr 0
      else bind (sum_loop prices (wrap64 (int (length prices) - period)) 0)
             (\<lambda>acc. Div acc (of_int period)))"

subsection \<open>calculateEMA\<close>

text \<open>\<open>for i := 0; i < period; i++ { sum = sum.Add(prices[i]) }\<close>\<close>

function seed_loop :: "decimal list \<Rightarrow> int \<Rightarrow> int \<Rightarrow> decimal \<Rightarrow> go_panic + decimal" where
  "seed_loop prices period i acc =
     (if i < period then
        (if 0 \<le> i \<and> i < int (length prices)
         then seed_loop prices period (i + 1) (acc + prices ! nat i)
         else Inl IndexOutOfRange)
      else Inr acc)"
  by pat_completeness auto
termination
  by (relation "measure (\<lambda>(prices, period, i, acc). nat (period - i))") auto

text \<open>\<open>for i := period; i < len(prices); i++ { ema = prices[i].Sub(ema).Mul(multiplier).Add(ema) }\<close>\<close>

function ema_loop :: "decimal list \<Rightarrow> decimal \<Rightarrow> int \<Rightarrow> decimal \<Rightarrow> go_panic + decimal" where
  "ema_loop prices multiplier i ema =
     (if i < int (length prices) then
        (if 0 \<le> i then ema_loop prices multiplier (i + 1) ((prices ! nat i - ema) * multiplier + ema)
         else Inl IndexOutOfRange)
      else Inr ema)"
  by pat_completeness auto
termination
  by (relation "measure (\<lambda>(prices, multiplier, i, ema). nat (int (length prices) - i))") auto

definition calculateEMA :: "decimal list \<Rightarrow> int \<Rightarrow> go_panic + decimal" where
  "calculateEMA prices period =
     (if int (length prices) < period then Inr 0
      else bind (seed_loop prices period 0 0) (\<lambda>acc.
           bind (Div acc (of_int period)) (\<lambda>ema.
           bind (Div 2 (of_int (wrap64 (period + 1)))) (\<lambda>multiplier.
           ema_loop prices multiplier period ema))))"

subsection \<open>calculateRSI\<close>

text \<open>
  The first loop, \<open>for i := 1; i <= period; i++\<close>, sums the gains and the losses of
  the first \<open>period\<close> changes.  The index \<open>i\<close> stays below \<open>len(prices)\<close> or the
  loop panics, so \<open>i++\<close> never wraps.
\<close>

function rsi_sum_loop ::
  "decimal list \<Rightarrow> int \<Rightarrow> int \<Rightarrow> decimal \<times> decimal \<Rightarrow> go_panic + decimal \<times> decimal" where
  "rsi_sum_loop prices period i gl =
     (if i \<le> period then
        (if 1 \<le> i \<and> i < int (length prices) then
           (let change = prices ! nat i - prices ! nat (i - 1) in
            rsi_sum_loop prices period (i + 1)
              (if change > 0 then (fst gl + change, snd gl) else (fst gl, snd gl + \<bar>change\<bar>)))
         else Inl IndexOutOfRange)
      else Inr gl)"
  by pat_completeness auto
termination
  by (relation "measure (\<lambda>(prices, period, i, gl). nat (int (length prices) - i))") auto

text \<open>One step of the smoothing, for a change \<open>change\<close>.\<close>

definition rsi_smooth :: "int \<Rightarrow> decimal \<Rightarrow> decimal \<times> decimal \<Rightarrow> go_panic + decimal \<times> decimal" where
  "rsi_smooth period change gl =
     (if change > 0 then
        bind (Div (fst gl * of_int (wrap64 (period - 1)) + change) (of_int period)) (\<lambda>avgGain.
        bind (Div (snd gl * of_int (wrap64 (period - 1))) (of_int period)) (\<lambda>avgLoss.
        Inr (avgGain, avgLoss)))
      else
        bind (Div (fst gl * of_int (wrap64 (period - 1))) (of_int period)) (\<lambda>avgGain.
        bind (Div (snd gl * of_int (wrap64 (period - 1)) + \<bar>change\<bar>) (of_int period)) (\<lambda>avgLoss.
        Inr (avgGain, avgLoss))))"

text \<open>The second loop, \<open>for i := period + 1; i < len(prices); i++\<close>.\<close>

function rsi_smooth_loop ::
  "decimal list \<Rightarrow> int \<Rightarrow> int \<Rightarrow> decimal \<times> decimal \<Rightarrow> go_panic + decimal \<times> decimal" where
  "rsi_smooth_loop prices period i gl =
     (if i < int (length prices) then
        (if 1 \<le> i then
           (case rsi_smooth period (prices ! nat i - prices ! nat (i - 1)) gl of
              Inl e \<Rightarrow> Inl e
            | Inr gl' \<Rightarrow> rsi_smooth_loop prices period (i + 1) gl')
         else Inl IndexOutOfRange)
      else Inr gl)"
  by pat_completeness auto
termination
  by (relation "measure (\<lambda>(prices, period, i, gl). nat (int (length prices) - i))") auto

text \<open>The smoothed average gain and average loss that the final quotient is taken of.\<close>

definition rsi_averages :: "decimal list \<Rightarrow> int \<Rightarrow> go_panic + decimal \<times> decimal" where
  "rsi_averages prices period =
     bind (rsi_sum_loop prices period 1 (0, 0)) (\<lambda>gl.
     bind (Div (fst gl) (of_int period)) (\<lambda>avgGain.
     bind (Div (snd gl) (of_int period)) (\<lambda>avgLoss.
     rsi_smooth_loop prices period (wrap64 (period + 1)) (avgGain, avgLoss))))"

definition calculateRSI :: "decimal list \<Rightarrow> int \<Rightarrow> go_panic + decimal" where
  "calculateRSI prices period =
     (if int (length prices) < wrap64 (period + 1) then Inr 0
      else bind (rsi_averages prices period) (\<lambda>gl.
        if snd gl = 0 then Inr 100
        else bind (Div (fst gl) (snd gl)) (\<lambda>rs.
             bind (Div 100 (1 + rs)) (\<lambda>q. Inr (100 - q)))))"

subsection \<open>calculateStandardDeviation\<close>

text \<open>\<open>for i := start; i < len(prices); i++ { diff := prices[i].Sub(sma); sum += diff * diff }\<close>\<close>

function sqdiff_loop :: "decimal list \<Rightarrow> decimal \<Rightarrow> int \<Rightarrow> decimal \<Rightarrow> go_panic + decimal" where
  "sqdiff_loop prices sma i acc =
     (if i < int (length prices) then
        (if 0 \<le> i
         then sqdiff_loop prices sma (i + 1) (acc + (prices ! nat i - sma) * (prices ! nat i - sma))
         else Inl IndexOutOfRange)
      else Inr acc)"
  by pat_completeness auto
termination
  by (relation "measure (\<lambda>(prices, sma, i, acc). nat (int (length prices) - i))") auto

text \<open>
  The square root is taken in float64 (\<open>math.Sqrt\<close> of \<open>InexactFloat64\<close>) and printed
  with 8 digits after the point before it becomes a decimal again.  That composite is
  the parameter \<open>sqrt8\<close>.
\<close>

definition calculateStandardDeviation ::
  "(decimal \<Rightarrow> decimal) \<Rightarrow> decimal list \<Rightarrow> int \<Rightarrow> go_panic + decimal" where
  "calculateStandardDeviation sqrt8 prices period =
     (if int (length prices) < period then Inr 0
      else bind (calculateSMA prices period) (\<lambda>sma.
           bind (sqdiff_loop prices sma (wrap64 (int (length prices) - period)) 0) (\<lambda>sumSquaredDiffs.
           bind (Div sumSquaredDiffs (of_int period)) (\<lambda>variance.
           Inr (sqrt8 variance)))))"

subsection \<open>findHighest, findLowest\<close>

text \<open>
  \<open>for i := start; i < len(prices); i++\<close> with \<open>start\<close> already clamped to
  \<open>0\<close> or more reads \<open>prices[start:]\<close> in order; the running extreme starts at
  \<open>prices[0]\<close>.
\<close>

primrec highest_loop :: "decimal list \<Rightarrow> decimal \<Rightarrow> decimal" where
  "highest_loop [] highest = highest"
| "highest_loop (p # ps) highest = highest_loop ps (if p > highest then p else highest)"

primrec lowest_loop :: "decimal list \<Rightarrow> decimal \<Rightarrow> decimal" where
  "lowest_loop [] lowest = lowest"
| "lowest_loop (p # ps) lowest = lowest_loop ps (if p < lowest then p else lowest)"

definition findHighest :: "decimal list \<Rightarrow> int \<Rightarrow> decimal" where
  "findHighest prices period =
     (if length prices = 0 then 0
      else let start = wrap64 (int (length prices) - period);
               start = (if start < 0 then 0 else start)
           in highest_loop (drop (nat start) prices) (prices ! 0))"

definition findLowest :: "decimal list \<Rightarrow> int \<Rightarrow> decimal" where
  "findLowest prices period =
     (if length prices = 0 then 0
      else let start = wrap64 (int (length prices) - period);
               start = (if start < 0 then 0 else start)
           in lowest_loop (drop (nat start) prices) (prices ! 0))"

subsection \<open>calculateStochastic, calculateWilliamsR\<close>

text \<open>\<open>xs[i]\<close>: panics unless \<open>0 \<le> i < len(xs)\<close>.\<close>

definition index :: "'a list \<Rightarrow> int \<Rightarrow> go_panic + 'a" where
  "index xs i = (if 0 \<le> i \<and> i < int (length xs) then Inr (xs ! nat i) else Inl IndexOutOfRange)"

definition calculateStochastic ::
  "decimal list \<Rightarrow> decimal list \<Rightarrow> decimal list \<Rightarrow> int \<Rightarrow> int \<Rightarrow> go_panic + decimal \<times> decimal" where
  "calculateStochastic highs lows closes kPeriod dPeriod =
     (if int (length closes) < kPeriod then Inr (0, 0)
      else bind (index closes (int (length closes) - 1)) (\<lambda>currentClose.
           bind (slice_from highs (wrap64 (int (length highs) - kPeriod))) (\<lambda>hs.
           bind (slice_from lows (wrap64 (int (length lows) - kPeriod))) (\<lambda>ls.
           let highestHigh = findHighest hs kPeriod;
               lowestLow = findLowest ls kPeriod
           in bind (if highestHigh \<noteq> lowestLow
                    then bind (Div (currentClose - lowestLow) (highestHigh - lowestLow))
                           (\<lambda>q. Inr (q * 100))
                    else Inr 0) (\<lambda>stochK.
              Inr (stochK, stochK))))))"

definition calculateWilliamsR ::
  "decimal list \<Rightarrow> decimal list \<Rightarrow> decimal list \<Rightarrow> int \<Rightarrow> go_panic + decimal" where
  "calculateWilliamsR highs lows closes period =
     (if int (length closes) < period then Inr 0
      else bind (index closes (int (length closes) - 1)) (\<lambda>currentClose.
           bind (slice_from highs (wrap64 (int (length highs) - period))) (\<lambda>hs.
           bind (slice_from lows (wrap64 (int (length lows) - period))) (\<lambda>ls.
           let highestHigh = findHighest hs period;
               lowestLow = findLowest ls period
           in if highestHigh = lowestLow then Inr 0
              else bind (Div (highestHigh - currentClose) (highestHigh - lowestLow))
                     (\<lambda>q. Inr (q * (- 100)))))))"

subsection \<open>calculateMACDHistory\<close>

text \<open>
  \<open>for i := slowPeriod - 1; i < len(prices); i++\<close>: where \<open>i >= fastPeriod - 1\<close>, the
  difference of the two EMAs of the prefix \<open>prices[:i+1]\<close> is appended.
\<close>

function macd_loop ::
  "decimal list \<Rightarrow> int \<Rightarrow> int \<Rightarrow> int \<Rightarrow> decimal list \<Rightarrow> go_panic + decimal list" where
  "macd_loop prices fastPeriod slowPeriod i macdValues =
     (if i < int (length prices) then
        (if i \<ge> wrap64 (fastPeriod - 1) then
           (case slice_to prices (i + 1) of
              Inl e \<Rightarrow> Inl e
            | Inr subPrices \<Rightarrow>
                (case calculateEMA subPrices fastPeriod of
                   Inl e \<Rightarrow> Inl e
                 | Inr ema12 \<Rightarrow>
                     (case calculateEMA subPrices slowPeriod of
                        Inl e \<Rightarrow> Inl e
                      | Inr ema26 \<Rightarrow>
                          macd_loop prices fastPeriod slowPeriod (i + 1)
                            (macdValues @ [ema12 - ema26]))))
         else macd_loop prices fastPeriod slowPeriod (i + 1) macdValues)
      else Inr macdValues)"
  by pat_completeness auto
termination
  by (relation "measure (\<lambda>(prices, fastPeriod, slowPeriod, i, macdValues).
        nat (int (length prices) - i))") auto

definition calculateMACDHistory :: "decimal list \<Rightarrow> int \<Rightarrow> int \<Rightarrow> go_panic + decimal list" where
  "calculateMACDHistory prices fastPeriod slowPeriod =
     (if int (length prices) < slowPeriod then Inr []
      else macd_loop prices fastPeriod slowPeriod (wrap64 (slowPeriod - 1)) [])"

subsection \<open>parseKlineData\<close>

text \<open>
  A kline row is a \<open>[]interface{}\<close> decoded from JSON: each cell is a float64, a string
  or something else.  A failed type assertion leaves the zero value.
  \<open>decimal.NewFromString\<close> is the parameter \<open>NewFromString\<close>; its error is dropped
  by the source, so a cell that does not parse becomes the zero decimal.
\<close>

datatype iface = IFloat rat | IString string | IOther

record OHLCV =
  Open :: decimal
  High :: decimal
  Low :: decimal
  Close :: decimal
  Volume_ohlcv :: decimal
  Timestamp :: int

definition as_float64 :: "iface \<Rightarrow> rat" where
  "as_float64 v = (case v of IFloat f \<Rightarrow> f | _ \<Rightarrow> 0)"

definition as_string :: "iface \<Rightarrow> string" where
  "as_string v = (case v of IString str \<Rightarrow> str | _ \<Rightarrow> [])"

text \<open>
  \<open>int64(timestamp)\<close> drops the fraction.  A value outside the range of int64 has no
  defined result in Go; amd64, which the bot is built for, gives the smallest int64.
\<close>

definition truncate_int64 :: "rat \<Rightarrow> int" where
  "truncate_int64 f =
     (let t = (if 0 \<le> f then \<lfloor>f\<rfloor> else - \<lfloor>- f\<rfloor>)
      in if - (2 ^ 63) \<le> t \<and> t < 2 ^ 63 then t else - (2 ^ 63))"

definition parse_kline :: "(string \<Rightarrow> decimal) \<Rightarrow> iface list \<Rightarrow> OHLCV" where
  "parse_kline NewFromString kline =
     \<lparr>Open = NewFromString (as_string (kline ! 1)),
      High = NewFromString (as_string (kline ! 2)),
      Low = NewFromString (as_string (kline ! 3)),
      Close = NewFromString (as_string (kline ! 4)),
      Volume_ohlcv = NewFromString (as_string (kline ! 5)),
      Timestamp = truncate_int64 (as_float64 (kline ! 0))\<rparr>"

text \<open>Rows of fewer than 6 cells are skipped; the error returned is always nil.\<close>

primrec parse_rows :: "(string \<Rightarrow> decimal) \<Rightarrow> iface list list \<Rightarrow> OHLCV list" where
  "parse_rows NewFromString [] = []"
| "parse_rows NewFromString (kline # klineData) =
     (if length kline < 6 then parse_rows NewFromString klineData
      else parse_kline NewFromString kline # parse_rows NewFromString klineData)"

definition parseKlineData ::
  "(string \<Rightarrow> decimal) \<Rightarrow> iface list list \<Rightarrow> OHLCV list \<times> string option" where
  "parseKlineData NewFromString klineData = (parse_rows NewFromString klineData, None)"

subsection \<open>AnalyzeMarketData\<close>

record MarketData =
  Symbol :: string
  Price :: decimal
  Volume24h :: decimal
  MarketCap :: decimal
  PriceChange1h :: decimal
  PriceChange24h :: decimal
  PriceChange7d :: decimal
  FearGreedIndex :: int
  KlineData :: "iface list list"

record TechnicalIndicators =
  RSI :: decimal
  MACDLine :: decimal
  MACDSignal :: decimal
  MACDHistogram :: decimal
  BBUpper :: decimal
  BBMiddle :: decimal
  BBLower :: decimal
  SMA20 :: decimal
  EMA12 :: decimal
  EMA26 :: decimal
  Volume :: decimal
  StochK :: decimal
  StochD :: decimal
  Williams :: decimal
  CurrentPrice :: decimal
  PreviousPrice :: decimal
  HighestHigh :: decimal
  LowestLow :: decimal

text \<open>The two library functions the analyzer is given: the decimal parser and the
  float64 square root printed with 8 digits.\<close>

record library =
  NewFromString :: "string \<Rightarrow> decimal"
  Sqrt8 :: "decimal \<Rightarrow> decimal"

text \<open>
  The result is the pair \<open>(*TechnicalIndicators, error)\<close>: \<open>None\<close> is the nil pointer
  and the nil error.  On fewer than 26 bars the source returns \<open>nil, err\<close> with the
  \<open>err\<close> of \<open>parseKlineData\<close>, which is nil at that point.
\<close>

definition AnalyzeMarketData ::
  "library \<Rightarrow> MarketData \<Rightarrow> go_panic + TechnicalIndicators option \<times> string option" where
  "AnalyzeMarketData lib marketData =
     (let (ohlcvData, err) = parseKlineData (NewFromString lib) (KlineData marketData) in
      if err \<noteq> None then Inr (None, err)
      else if length ohlcvData < 26 then Inr (None, err)
      else
        let closePrices = map Close ohlcvData;
            highPrices = map High ohlcvData;
            lowPrices = map Low ohlcvData
        in bind (calculateRSI closePrices 14) (\<lambda>rsi.
           bind (calculateEMA closePrices 12) (\<lambda>ema12.
           bind (calculateEMA closePrices 26) (\<lambda>ema26.
           bind (calculateMACDHistory closePrices 12 26) (\<lambda>macdValues.
           bind (calculateEMA macdValues 9) (\<lambda>macdSignal.
           bind (calculateSMA closePrices 20) (\<lambda>sma20.
           bind (calculateStandardDeviation (Sqrt8 lib) closePrices 20) (\<lambda>stdDev.
           bind (calculateStochastic highPrices lowPrices closePrices 14 3) (\<lambda>(stochK, stochD).
           bind (calculateWilliamsR highPrices lowPrices closePrices 14) (\<lambda>williams.
           Inr (Some
             \<lparr>RSI = rsi,
              MACDLine = ema12 - ema26,
              MACDSignal = macdSignal,
              MACDHistogram = (ema12 - ema26) - macdSignal,
              BBUpper = sma20 + stdDev * 2,
              BBMiddle = sma20,
              BBLower = sma20 - stdDev * 2,
              SMA20 = sma20,
              EMA12 = ema12,
              EMA26 = ema26,
              Volume = Volume24h marketData,
              StochK = stochK,
              StochD = stochD,
              Williams = williams,
              CurrentPrice = Price marketData,
              PreviousPrice =
                (if length closePrices > 1 then closePrices ! (length closePrices - 2) else 0),
              HighestHigh = findHighest highPrices 20,
              LowestLow = findLowest lowPrices 20\<rparr>, None)))))))))))"

section \<open>Signal scorer (SignalGenerator)\<close>

text \<open>
  The two RSI thresholds and the minimum confidence are float64 fields that the source
  only ever reads through \<open>decimal.NewFromFloat\<close>: they are the decimals that it makes of
  them here (0.7 is 7/10).  The three percentages are divided by 100 in float64 before
  they become decimals: they are the float64 values themselves here.  All of them are
  finite.
\<close>

record Config =
  MinConfidenceThreshold :: decimal
  MaxSignalsPerDay :: int
  StopLossPercentage :: decimal
  TakeProfit1Percentage :: decimal
  TakeProfit2Percentage :: decimal
  RSIOversoldThreshold :: decimal
  RSIOverboughtThreshold :: decimal
  FearGreedMinThreshold :: int
  FearGreedMaxThreshold :: int

text \<open>
  The reasoning strings.  Each constructor stands for one fixed text; its argument is the
  number that \<open>Sprintf\<close> prints into it.
\<close>

datatype reason =
    RSI_oversold decimal
  | RSI_overbought decimal
  | MACD_bullish_crossover
  | MACD_bearish_crossover
  | Price_below_lower_Bollinger_Band
  | Price_above_upper_Bollinger_Band
  | Extreme_fear_in_market int
  | Extreme_greed_in_market int
  | Price_above_SMA20_with_bullish_EMA_crossover
  | Price_below_SMA20_with_bearish_EMA_crossover

text \<open>
  The slices \<open>signals\<close>, \<open>confidenceFactors\<close> and \<open>reasoning\<close> are only ever appended
  to together, so they are one list of triples.
\<close>

record vote =
  signal :: string
  confidenceFactor :: decimal
  reasoning :: reason

definition cast :: "string \<Rightarrow> decimal \<Rightarrow> reason \<Rightarrow> vote" where
  "cast s w r = \<lparr>signal = s, confidenceFactor = w, reasoning = r\<rparr>"

text \<open>
  The five rule groups of \<open>analyzeMarketConditions\<close>, each under the comment of its
  block: what the block appends.
\<close>

definition rsi_analysis :: "Config \<Rightarrow> TechnicalIndicators \<Rightarrow> vote list" where
  "rsi_analysis cfg indicators =
     (if RSI indicators < RSIOversoldThreshold cfg
      then [cast ''BUY'' (3 / 10) (RSI_oversold (RSI indicators))]
      else if RSI indicators > RSIOverboughtThreshold cfg
      then [cast ''SELL'' (3 / 10) (RSI_overbought (RSI indicators))]
      else [])"

definition macd_analysis :: "TechnicalIndicators \<Rightarrow> vote list" where
  "macd_analysis indicators =
     (if MACDLine indicators > MACDSignal indicators \<and> MACDHistogram indicators > 0
      then [cast ''BUY'' (25 / 100) MACD_bullish_crossover]
      else if MACDLine indicators < MACDSignal indicators \<and> MACDHistogram indicators < 0
      then [cast ''SELL'' (25 / 100) MACD_bearish_crossover]
      else [])"

definition bollinger_analysis :: "MarketData \<Rightarrow> TechnicalIndicators \<Rightarrow> vote list" where
  "bollinger_analysis marketData indicators =
     (if Price marketData < BBLower indicators
      then [cast ''BUY'' (2 / 10) Price_below_lower_Bollinger_Band]
      else if Price marketData > BBUpper indicators
      then [cast ''SELL'' (2 / 10) Price_above_upper_Bollinger_Band]
      else [])"

definition fear_greed_analysis :: "Config \<Rightarrow> MarketData \<Rightarrow> vote list" where
  "fear_greed_analysis cfg marketData =
     (if FearGreedIndex marketData < FearGreedMinThreshold cfg
      then [cast ''BUY'' (15 / 100) (Extreme_fear_in_market (FearGreedIndex marketData))]
      else if FearGreedIndex marketData > FearGreedMaxThreshold cfg
      then [cast ''SELL'' (15 / 100) (Extreme_greed_in_market (FearGreedIndex marketData))]
      else [])"

definition price_action_analysis :: "MarketData \<Rightarrow> TechnicalIndicators \<Rightarrow> vote list" where
  "price_action_analysis marketData indicators =
     (if Price marketData > SMA20 indicators \<and> EMA12 indicators > EMA26 indicators
      then [cast ''BUY'' (1 / 10) Price_above_SMA20_with_bullish_EMA_crossover]
      else if Price marketData < SMA20 indicators \<and> EMA12 indicators < EMA26 indicators
      then [cast ''SELL'' (1 / 10) Price_below_SMA20_with_bearish_EMA_crossover]
      else [])"

text \<open>The votes after the five analyses, in the order the source appends them.\<close>

definition votes_cast :: "Config \<Rightarrow> MarketData \<Rightarrow> TechnicalIndicators \<Rightarrow> vote list" where
  "votes_cast cfg marketData indicators =
     rsi_analysis cfg indicators @ macd_analysis indicators
       @ bollinger_analysis marketData indicators @ fear_greed_analysis cfg marketData
       @ price_action_analysis marketData indicators"

text \<open>
  \<open>for i, signal := range signals\<close>: counts the BUY and the SELL votes and adds up
  \<open>confidenceFactors[i]\<close> of every vote.
\<close>

primrec tally :: "vote list \<Rightarrow> int \<times> int \<times> decimal \<Rightarrow> int \<times> int \<times> decimal" where
  "tally [] acc = acc"
| "tally (v # vs) acc =
     tally vs
       (case acc of (buySignals, sellSignals, totalConfidence) \<Rightarrow>
          (if signal v = ''BUY'' then buySignals + 1 else buySignals,
           if signal v \<noteq> ''BUY'' \<and> signal v = ''SELL'' then sellSignals + 1 else sellSignals,
           totalConfidence + confidenceFactor v))"

text \<open>
  \<open>decimal.NewFromFloat(float64(a) / float64(b))\<close>.  A zero \<open>b\<close> gives NaN or an
  infinity, on which \<open>NewFromFloat\<close> panics.  Otherwise the float64 quotient is turned
  into its shortest decimal: for the counts that five rule groups allow,
  \<open>0 \<le> a \<le> b \<le> 5\<close>, that is \<open>a / b\<close> itself except for the thirds, which come out as
  0.3333333333333333 and 0.6666666666666666.
\<close>

definition float_quotient :: "int \<Rightarrow> int \<Rightarrow> go_panic + decimal" where
  "float_quotient a b =
     (if b = 0 then Inl NonFiniteFloat
      else if b = 3 \<and> a = 1 then Inr (3333333333333333 / 10 ^ 16)
      else if b = 3 \<and> a = 2 then Inr (6666666666666666 / 10 ^ 16)
      else Inr (of_int a / of_int b))"

text \<open>Of \<open>MarketConditions\<close> the three counters are kept; the float64 renderings of
  the indicators are left out.\<close>

record conditions =
  buy_signals :: int
  sell_signals :: int
  total_signals :: int

record SignalDecision =
  Action :: string
  Confidence :: decimal
  Reasoning :: "reason list"
  EntryPrice :: decimal
  StopLoss :: decimal
  TakeProfit1 :: decimal
  TakeProfit2 :: decimal
  MarketConditions :: conditions

text \<open>
  The blocks "Determine final signal" and "Decision logic" of \<open>analyzeMarketConditions\<close>:
  the action and the confidence.
\<close>

definition decide :: "vote list \<Rightarrow> go_panic + string \<times> decimal" where
  "decide votes =
     (case tally votes (0, 0, 0) of (buySignals, sellSignals, totalConfidence) \<Rightarrow>
        if buySignals > sellSignals then
          bind (float_quotient buySignals (int (length votes)))
            (\<lambda>ratio. Inr (''BUY'', totalConfidence * ratio))
        else if sellSignals > buySignals then
          bind (float_quotient sellSignals (int (length votes)))
            (\<lambda>ratio. Inr (''SELL'', totalConfidence * ratio))
        else Inr (''HOLD'', 1 / 10))"

text \<open>
  The block "Calculate price targets"; the three targets start as zero decimals.  Each
  percentage is divided by 100 in float64, and the quotient is made a decimal:
  \<open>decimal.NewFromFloat(sg.cfg.StopLossPercentage / 100)\<close>.
\<close>

definition price_targets :: "Config \<Rightarrow> string \<Rightarrow> decimal \<Rightarrow> decimal \<times> decimal \<times> decimal" where
  "price_targets cfg action currentPrice =
     (let stopLossPercent = NewFromFloat (float64_div (StopLossPercentage cfg) 100);
          takeProfit1Percent = NewFromFloat (float64_div (TakeProfit1Percentage cfg) 100);
          takeProfit2Percent = NewFromFloat (float64_div (TakeProfit2Percentage cfg) 100)
      in if action = ''BUY'' then
           (currentPrice * (1 - stopLossPercent),
            currentPrice * (1 + takeProfit1Percent),
            currentPrice * (1 + takeProfit2Percent))
         else if action = ''SELL'' then
           (currentPrice * (1 + stopLossPercent),
            currentPrice * (1 - takeProfit1Percent),
            currentPrice * (1 - takeProfit2Percent))
         else (0, 0, 0))"

definition analyzeMarketConditions ::
  "Config \<Rightarrow> MarketData \<Rightarrow> TechnicalIndicators \<Rightarrow> go_panic + SignalDecision" where
  "analyzeMarketConditions cfg marketData indicators =
     (let currentPrice = Price marketData;
          votes = votes_cast cfg marketData indicators
      in bind (decide votes) (\<lambda>(action, confidence).
           case price_targets cfg action currentPrice of (stopLoss, takeProfit1, takeProfit2) \<Rightarrow>
           case tally votes (0, 0, 0) of (buySignals, sellSignals, totalConfidence) \<Rightarrow>
             Inr \<lparr>Action = action,
                  Confidence = confidence,
                  Reasoning = map reasoning votes,
                  EntryPrice = currentPrice,
                  StopLoss = stopLoss,
                  TakeProfit1 = takeProfit1,
                  TakeProfit2 = takeProfit2,
                  MarketConditions =
                    \<lparr>buy_signals = buySignals, sell_signals = sellSignals,
                     total_signals = int (length votes)\<rparr>\<rparr>))"

subsection \<open>GenerateSignal\<close>

text \<open>
  The database is the list of the signals stored so far, and whether it can be reached.
  \<open>CreateSignal\<close> stores a signal or returns an error.  The pointers to the database,
  to the configuration and to the market data are taken to be non-nil.  Of a trading
  signal the fields that come from the decision are kept; its ID, its creation time and
  its copies of the indicator values are left out.
\<close>

record TradingSignal =
  CryptoSymbol :: string
  Action_ts :: string
  ConfidenceScore :: decimal
  EntryPrice_ts :: decimal
  StopLoss_ts :: decimal
  TakeProfit1_ts :: decimal
  TakeProfit2_ts :: decimal
  Reasoning_ts :: "reason list"
  Timeframe :: string
  Status :: string

record database =
  stored :: "TradingSignal list"
  reachable :: bool

definition CreateSignal :: "database \<Rightarrow> TradingSignal \<Rightarrow> database \<times> string option" where
  "CreateSignal db s =
     (if reachable db then (db\<lparr>stored := stored db @ [s]\<rparr>, None)
      else (db, Some ''database error''))"

record SignalGenerator =
  sg_db :: database
  sg_cfg :: Config

text \<open>
  The source: \<open>// TODO: Implement daily signal count check from database\<close>,
  \<open>// For now, return false\<close>.
\<close>

definition hasReachedDailyLimit :: "SignalGenerator \<Rightarrow> bool" where
  "hasReachedDailyLimit sg = False"

text \<open>
  The result is the generator with its database after the call, and the pair
  \<open>(*models.TradingSignal, error)\<close>.  \<open>indicators\<close> is a pointer: \<open>None\<close> is nil, which
  \<open>analyzeMarketConditions\<close> dereferences.
\<close>

definition GenerateSignal ::
  "SignalGenerator \<Rightarrow> MarketData \<Rightarrow> TechnicalIndicators option \<Rightarrow> string \<Rightarrow>
   go_panic + SignalGenerator \<times> TradingSignal option \<times> string option" where
  "GenerateSignal sg marketData indicators crypto =
     (case indicators of
        None \<Rightarrow> Inl NilDereference
      | Some ind \<Rightarrow>
          bind (analyzeMarketConditions (sg_cfg sg) marketData ind) (\<lambda>decision.
            if Confidence decision < MinConfidenceThreshold (sg_cfg sg) then Inr (sg, None, None)
            else if hasReachedDailyLimit sg then Inr (sg, None, None)
            else
              let signal =
                    \<lparr>CryptoSymbol = crypto,
                     Action_ts = Action decision,
                     ConfidenceScore = Confidence decision,
                     EntryPrice_ts = EntryPrice decision,
                     StopLoss_ts = StopLoss decision,
                     TakeProfit1_ts = TakeProfit1 decision,
                     TakeProfit2_ts = TakeProfit2 decision,
                     Reasoning_ts = Reasoning decision,
                     Timeframe = ''15m'',
                     Status = ''active''\<rparr>
              in case CreateSignal (sg_db sg) signal of
                   (db', Some err) \<Rightarrow> Inr (sg\<lparr>sg_db := db'\<rparr>, None, Some err)
                 | (db', None) \<Rightarrow> Inr (sg\<lparr>sg_db := db'\<rparr>, Some signal, None)))"

section \<open>Feature extractor and outcome predictor (LearningEngine)\<close>

record FeatureVector =
  RSI_fv :: decimal
  MACDHistogram_fv :: decimal
  BBPosition :: decimal
  FearGreedIndex_fv :: decimal
  PriceChange24h_fv :: decimal
  Volume24h_fv :: decimal
  PriceAboveSMA20 :: bool
  EMACrossover :: bool
  RSIOversold :: bool
  RSIOverbought :: bool
  MACDBullish :: bool
  BBSqueeze :: bool
  HighVolume :: bool
  TrendDirection :: string
  MarketSentiment :: string

definition calculateBBPosition :: "decimal \<Rightarrow> decimal \<Rightarrow> decimal \<Rightarrow> go_panic + decimal" where
  "calculateBBPosition price upper lower =
     (if upper = lower then Inr (1 / 2) else Div (price - lower) (upper - lower))"

text \<open>\<open>indicators\<close> is a pointer, dereferenced in the first statement.\<close>

definition ExtractFeatures ::
  "Config \<Rightarrow> MarketData \<Rightarrow> TechnicalIndicators option \<Rightarrow> go_panic + FeatureVector" where
  "ExtractFeatures cfg marketData indicators =
     (case indicators of
        None \<Rightarrow> Inl NilDereference
      | Some ind \<Rightarrow>
          bind (calculateBBPosition (Price marketData) (BBUpper ind) (BBLower ind)) (\<lambda>bbPosition.
          let priceAboveSMA20 = Price marketData > SMA20 ind;
              emaCrossover = EMA12 ind > EMA26 ind;
              rsiOversold = RSI ind < RSIOversoldThreshold cfg;
              rsiOverbought = RSI ind > RSIOverboughtThreshold cfg;
              macdBullish = MACDHistogram ind > 0;
              bbRange = BBUpper ind - BBLower ind;
              avgPrice = SMA20 ind
          in bind (Div bbRange avgPrice) (\<lambda>squeeze.
          let bbSqueeze = squeeze < 2 / 100;
              highVolume = Volume24h marketData > 0;
              trendDirection =
                (if priceAboveSMA20 \<and> emaCrossover then ''bullish''
                 else if \<not> priceAboveSMA20 \<and> \<not> emaCrossover then ''bearish''
                 else ''neutral'');
              marketSentiment =
                (if FearGreedIndex marketData \<le> 20 then ''extreme_fear''
                 else if FearGreedIndex marketData \<le> 40 then ''fear''
                 else if FearGreedIndex marketData \<ge> 80 then ''extreme_greed''
                 else if FearGreedIndex marketData \<ge> 60 then ''greed''
                 else ''neutral'')
          in Inr \<lparr>RSI_fv = RSI ind,
                  MACDHistogram_fv = MACDHistogram ind,
                  BBPosition = bbPosition,
                  FearGreedIndex_fv = of_int (FearGreedIndex marketData),
                  PriceChange24h_fv = PriceChange24h marketData,
                  Volume24h_fv = Volume24h marketData,
                  PriceAboveSMA20 = priceAboveSMA20,
                  EMACrossover = emaCrossover,
                  RSIOversold = rsiOversold,
                  RSIOverbought = rsiOverbought,
                  MACDBullish = macdBullish,
                  BBSqueeze = bbSqueeze,
                  HighVolume = highVolume,
                  TrendDirection = trendDirection,
                  MarketSentiment = marketSentiment\<rparr>)))"

subsection \<open>PredictSignalOutcome\<close>

text \<open>\<open>if c { score += n; confidence = confidence.Add(w) }\<close>\<close>

definition add_if :: "bool \<Rightarrow> int \<Rightarrow> decimal \<Rightarrow> int \<times> decimal \<Rightarrow> int \<times> decimal" where
  "add_if c n w sc = (if c then (fst sc + n, snd sc + w) else sc)"

text \<open>The two scores and the confidence accumulated, before the outcome is determined.\<close>

definition predict_scores :: "FeatureVector \<Rightarrow> int \<times> int \<times> decimal" where
  "predict_scores features =
     (let bull = (0, 1 / 2);
          bull = add_if (RSIOversold features) 2 (15 / 100) bull;
          bull = add_if (MACDBullish features) 2 (12 / 100) bull;
          bull = add_if (BBPosition features < 2 / 10) 1 (8 / 100) bull;
          bull = add_if (MarketSentiment features = ''extreme_fear'') 2 (10 / 100) bull;
          bull = add_if (TrendDirection features = ''bullish'') 1 (5 / 100) bull;
          bear = (0, snd bull);
          bear = add_if (RSIOverbought features) 2 (15 / 100) bear;
          bear = add_if (\<not> MACDBullish features) 1 (8 / 100) bear;
          bear = add_if (BBPosition features > 8 / 10) 1 (8 / 100) bear;
          bear = add_if (MarketSentiment features = ''extreme_greed'') 2 (10 / 100) bear;
          bear = add_if (TrendDirection features = ''bearish'') 1 (5 / 100) bear
      in (fst bull, fst bear, snd bear))"

definition PredictSignalOutcome :: "FeatureVector \<Rightarrow> string \<times> decimal" where
  "PredictSignalOutcome features =
     (case predict_scores features of (bullishScore, bearishScore, confidence) \<Rightarrow>
        let (outcome, confidence) =
              (if bullishScore > bearishScore \<and> bullishScore \<ge> 3 then (''profit'', confidence)
               else if bearishScore > bullishScore \<and> bearishScore \<ge> 3 then (''profit'', confidence)
               else (''loss'', confidence * (5 / 10)));
            confidence = (if confidence > 1 then 1 else confidence)
        in (outcome, confidence))"

section \<open>The per-cryptocurrency analysis (BotService)\<close>

text \<open>
  \<open>GetMarketData\<close> fetches from the network: its result is the parameter \<open>fetched\<close>,
  an error or the market data.  \<open>saveMarketSnapshot\<close>, \<open>SaveLearningData\<close> and
  \<open>SendSignalNotification\<close> write to collaborators; their errors are only logged, and
  \<open>saveMarketSnapshot\<close> checks \<open>indicators != nil\<close> before it reads them, so none of
  them changes the course of the call.
\<close>

record BotService =
  bs_cfg :: Config
  signalGenerator :: SignalGenerator
  totalSignalsToday :: int

definition analyzeCryptocurrency ::
  "library \<Rightarrow> BotService \<Rightarrow> string \<Rightarrow> string + MarketData \<Rightarrow>
   go_panic + BotService \<times> string option" where
  "analyzeCryptocurrency lib bs crypto fetched =
     (case fetched of
        Inl err \<Rightarrow> Inr (bs, Some err)
      | Inr marketData \<Rightarrow>
          bind (AnalyzeMarketData lib marketData) (\<lambda>(indicators, err).
            if err \<noteq> None then Inr (bs, err)
            else
              bind (ExtractFeatures (bs_cfg bs) marketData indicators) (\<lambda>features.
              let (predictedOutcome, predictedConfidence) = PredictSignalOutcome features in
              bind (GenerateSignal (signalGenerator bs) marketData indicators crypto)
                (\<lambda>(sg', signal, err).
                   if err \<noteq> None then Inr (bs\<lparr>signalGenerator := sg'\<rparr>, err)
                   else if signal \<noteq> None
                   then Inr (bs\<lparr>signalGenerator := sg',
                                totalSignalsToday := wrap64 (totalSignalsToday bs + 1)\<rparr>, None)
                   else Inr (bs\<lparr>signalGenerator := sg'\<rparr>, None)))))"

section \<open>The specification's formulas\<close>

text \<open>
  The confidence as the specification words it: the sum of the weights of the votes that
  point in the winning direction, times the winning count over the number of votes cast.
\<close>

definition matched_weight :: "string \<Rightarrow> vote list \<Rightarrow> decimal" where
  "matched_weight direction votes =
     sum_list (map confidenceFactor (filter (\<lambda>v. signal v = direction) votes))"

definition count_votes :: "string \<Rightarrow> vote list \<Rightarrow> int" where
  "count_votes direction votes = int (length (filter (\<lambda>v. signal v = direction) votes))"

definition spec_confidence :: "string \<Rightarrow> vote list \<Rightarrow> decimal" where
  "spec_confidence direction votes =
     matched_weight direction votes
       * (of_int (count_votes direction votes) / of_int (int (length votes)))"

text \<open>The sum of the weights of all the votes cast, whatever their direction.\<close>

definition total_weight :: "vote list \<Rightarrow> decimal" where
  "total_weight votes = sum_list (map confidenceFactor votes)"

text \<open>The additive scores of the outcome predictor, each feature with its fixed increment.\<close>

definition bullish_score :: "FeatureVector \<Rightarrow> int" where
  "bullish_score f =
     (if RSIOversold f then 2 else 0) + (if MACDBullish f then 2 else 0)
       + (if BBPosition f < 2 / 10 then 1 else 0)
       + (if MarketSentiment f = ''extreme_fear'' then 2 else 0)
       + (if TrendDirection f = ''bullish'' then 1 else 0)"

definition bearish_score :: "FeatureVector \<Rightarrow> int" where
  "bearish_score f =
     (if RSIOverbought f then 2 else 0) + (if \<not> MACDBullish f then 1 else 0)
       + (if BBPosition f > 8 / 10 then 1 else 0)
       + (if MarketSentiment f = ''extreme_greed'' then 2 else 0)
       + (if TrendDirection f = ''bearish'' then 1 else 0)"

definition accumulated_confidence :: "FeatureVector \<Rightarrow> decimal" where
  "accumulated_confidence f =
     1 / 2
       + (if RSIOversold f then 15 / 100 else 0) + (if MACDBullish f then 12 / 100 else 0)
       + (if BBPosition f < 2 / 10 then 8 / 100 else 0)
       + (if MarketSentiment f = ''extreme_fear'' then 10 / 100 else 0)
       + (if TrendDirection f = ''bullish'' then 5 / 100 else 0)
       + (if RSIOverbought f then 15 / 100 else 0)
       + (if \<not> MACDBullish f then 8 / 100 else 0)
       + (if BBPosition f > 8 / 10 then 8 / 100 else 0)
       + (if MarketSentiment f = ''extreme_greed'' then 10 / 100 else 0)
       + (if TrendDirection f = ''bearish'' then 5 / 100 else 0)"

text \<open>
  What each rule group contributes: at most one vote, for BUY or for SELL, of a weight
  between 0 and \<open>w\<close>.
\<close>

definition one_vote :: "decimal \<Rightarrow> vote list \<Rightarrow> bool" where
  "one_vote w g =
     (count_votes ''BUY'' g + count_votes ''SELL'' g = int (length g) \<and> length g \<le> 1
      \<and> 0 \<le> count_votes ''BUY'' g \<and> 0 \<le> count_votes ''SELL'' g
      \<and> 0 \<le> total_weight g \<and> total_weight g \<le> w)"

section \<open>Concrete inputs\<close>

text \<open>The defaults of \<open>config.Load\<close>.\<close>

definition default_config :: Config where
  "default_config =
     \<lparr>MinConfidenceThreshold = 7 / 10, MaxSignalsPerDay = 10, StopLossPercentage = 5,
      TakeProfit1Percentage = 3, TakeProfit2Percentage = 6, RSIOversoldThreshold = 30,
      RSIOverboughtThreshold = 70, FearGreedMinThreshold = 20, FearGreedMaxThreshold = 80\<rparr>"

text \<open>
  The defaults, but for take-profit percentages of 1.6000000000000003 and
  1.6000000000000005: two float64 values next to each other, written as the rationals
  they are.
\<close>

definition adjacent_config :: Config where
  "adjacent_config =
     default_config
       \<lparr>TakeProfit1Percentage := 7205759403792795 / 4503599627370496,
        TakeProfit2Percentage := 1801439850948199 / 1125899906842624\<rparr>"

text \<open>A market snapshot with a price and a fear and greed index, and a set of indicator
  readings, for the examples below.\<close>

definition snapshot :: "decimal \<Rightarrow> int \<Rightarrow> MarketData" where
  "snapshot price fearGreed =
     \<lparr>Symbol = ''BTC'', Price = price, Volume24h = 1000, MarketCap = 1000000,
      PriceChange1h = 0, PriceChange24h = 0, PriceChange7d = 0, FearGreedIndex = fearGreed,
      KlineData = []\<rparr>"

definition readings ::
  "decimal \<Rightarrow> decimal \<Rightarrow> decimal \<Rightarrow> decimal \<Rightarrow> decimal \<Rightarrow> decimal \<Rightarrow> decimal \<Rightarrow> decimal \<Rightarrow> TechnicalIndicators" where
  "readings rsi macdLine macdSignal bbUpper bbLower sma20 ema12 ema26 =
     \<lparr>RSI = rsi, MACDLine = macdLine, MACDSignal = macdSignal,
      MACDHistogram = macdLine - macdSignal, BBUpper = bbUpper, BBMiddle = sma20,
      BBLower = bbLower, SMA20 = sma20, EMA12 = ema12, EMA26 = ema26, Volume = 1000,
      StochK = 50, StochD = 50, Williams = - 50, CurrentPrice = 100, PreviousPrice = 100,
      HighestHigh = 120, LowestLow = 80\<rparr>"

text \<open>A feature vector with the fields the outcome predictor reads.\<close>

definition features_of ::
  "bool \<Rightarrow> bool \<Rightarrow> bool \<Rightarrow> decimal \<Rightarrow> string \<Rightarrow> string \<Rightarrow> FeatureVector" where
  "features_of oversold overbought macdBullish bbPosition trend sentiment =
     \<lparr>RSI_fv = 50, MACDHistogram_fv = 0, BBPosition = bbPosition, FearGreedIndex_fv = 50,
      PriceChange24h_fv = 0, Volume24h_fv = 1000, PriceAboveSMA20 = True, EMACrossover = True,
      RSIOversold = oversold, RSIOverbought = overbought, MACDBullish = macdBullish,
      BBSqueeze = False, HighVolume = True, TrendDirection = trend,
      MarketSentiment = sentiment\<rparr>"

text \<open>A signal generator whose database already holds as many signals as
  \<open>MaxSignalsPerDay\<close> allows, and a bot service around it.\<close>

definition stored_signal :: TradingSignal where
  "stored_signal =
     \<lparr>CryptoSymbol = ''ETH'', Action_ts = ''BUY'', ConfidenceScore = 8 / 10,
      EntryPrice_ts = 100, StopLoss_ts = 95, TakeProfit1_ts = 103, TakeProfit2_ts = 106,
      Reasoning_ts = [MACD_bullish_crossover], Timeframe = ''15m'', Status = ''active''\<rparr>"

definition full_generator :: SignalGenerator where
  "full_generator =
     \<lparr>sg_db = \<lparr>stored = replicate 10 stored_signal, reachable = True\<rparr>,
      sg_cfg = default_config\<rparr>"

text \<open>A library whose parser reads every cell as zero.\<close>

definition no_library :: library where
  "no_library = \<lparr>NewFromString = (\<lambda>s. 0), Sqrt8 = (\<lambda>v. v)\<rparr>"

definition idle_service :: BotService where
  "idle_service =
     \<lparr>bs_cfg = default_config, signalGenerator = full_generator, totalSignalsToday = 10\<rparr>"

section \<open>Properties of the runtime model\<close>

lemma wrap64_id: "- (2 ^ 63) \<le> x \<Longrightarrow> x < 2 ^ 63 \<Longrightarrow> wrap64 x = x"
  unfolding wrap64_def by (simp add: mod_pos_pos_trivial)

lemma floor_int_plus_half: "\<lfloor>rat_of_int n + 1 / 2\<rfloor> = n"
  by (rule floor_unique) simp_all

lemma round_half_away_of_int: "round_half_away (of_int n) = n"
proof (cases "0 \<le> n")
  case True
  then show ?thesis by (simp only: round_half_away_def floor_int_plus_half of_int_0_le_iff if_True)
next
  case False
  have "\<lfloor>1 / 2 - rat_of_int n\<rfloor> = \<lfloor>rat_of_int (- n) + 1 / 2\<rfloor>" by simp
  also have "\<dots> = - n" by (rule floor_int_plus_half)
  finally show ?thesis using False by (simp add: round_half_away_def)
qed

lemma round_half_away_mono: "x \<le> y \<Longrightarrow> round_half_away x \<le> round_half_away y"
proof -
  assume le: "x \<le> y"
  consider "0 \<le> x" | "x < 0" "0 \<le> y" | "y < 0" using le by linarith
  then show ?thesis
  proof cases
    case 1
    then show ?thesis using le by (simp add: round_half_away_def floor_mono)
  next
    case 2
    have a: "0 \<le> \<lfloor>1 / 2 - x\<rfloor>" using 2 by simp
    have b: "0 \<le> \<lfloor>y + 1 / 2\<rfloor>" using 2 by simp
    have "round_half_away x = - \<lfloor>1 / 2 - x\<rfloor>" using 2 by (simp add: round_half_away_def)
    moreover have "round_half_away y = \<lfloor>y + 1 / 2\<rfloor>" using 2 by (simp add: round_half_away_def)
    ultimately show ?thesis using a b by linarith
  next
    case 3
    have "\<lfloor>1 / 2 - y\<rfloor> \<le> \<lfloor>1 / 2 - x\<rfloor>" using le by (intro floor_mono) simp
    then show ?thesis using 3 le by (simp add: round_half_away_def)
  qed
qed

lemma round_to_mono: "x \<le> y \<Longrightarrow> round_to p x \<le> round_to p y"
  unfolding round_to_def
  by (intro divide_right_mono round_half_away_mono mult_right_mono iffD2 [OF of_int_le_iff]) simp_all

lemma round_to_of_int: "round_to p (of_int n) = of_int n"
proof -
  have "(of_int n :: rat) * 10 ^ p = of_int (n * 10 ^ p)" by simp
  then have "round_half_away (of_int n * 10 ^ p) = n * 10 ^ p"
    by (simp only: round_half_away_of_int)
  then show ?thesis by (simp add: round_to_def)
qed

lemma round_to_bounds:
  assumes "of_int a \<le> x" and "x \<le> of_int b"
  shows "of_int a \<le> round_to p x \<and> round_to p x \<le> of_int b"
  using round_to_mono [OF assms(1), of p] round_to_mono [OF assms(2), of p]
  by (simp add: round_to_of_int)

section \<open>Properties of the indicator engine\<close>

lemma Div_bounds:
  assumes "b \<noteq> 0" and "of_int lo \<le> a / b" and "a / b \<le> of_int hi"
  shows "\<exists>q. Div a b = Inr q \<and> of_int lo \<le> q \<and> q \<le> of_int hi"
  using round_to_bounds [OF assms(2,3)] assms(1) by (simp add: Div_def DivRound_def)

lemma Div_nonneg:
  assumes "0 \<le> a" and "0 < b"
  shows "\<exists>q. Div a b = Inr q \<and> 0 \<le> q"
proof -
  have "round_to DivisionPrecision 0 \<le> round_to DivisionPrecision (a / b)"
    using assms by (intro round_to_mono) simp
  moreover have "round_to DivisionPrecision 0 = 0"
    using round_to_of_int [of DivisionPrecision 0] by simp
  ultimately show ?thesis using assms by (simp add: Div_def DivRound_def)
qed

declare rsi_sum_loop.simps [simp del] rsi_smooth_loop.simps [simp del]

lemma rsi_sum_loop_nonneg:
  "1 \<le> i \<Longrightarrow> period < int (length prices) \<Longrightarrow> 0 \<le> fst gl \<Longrightarrow> 0 \<le> snd gl \<Longrightarrow>
   \<exists>g l. rsi_sum_loop prices period i gl = Inr (g, l) \<and> 0 \<le> g \<and> 0 \<le> l"
proof (induction prices period i gl rule: rsi_sum_loop.induct)
  case (1 prices period i gl)
  show ?case
  proof (cases "i \<le> period")
    case False
    then show ?thesis using 1(4,5) by (subst rsi_sum_loop.simps) (cases gl, simp)
  next
    case True
    define change where "change = prices ! nat i - prices ! nat (i - 1)"
    define gl' where "gl' = (if change > 0 then (fst gl + change, snd gl) else (fst gl, snd gl + \<bar>change\<bar>))"
    have inr: "1 \<le> i \<and> i < int (length prices)" using True 1(2,3) by simp
    have nn: "0 \<le> fst gl'" "0 \<le> snd gl'" using 1(4,5) by (auto simp: gl'_def)
    have "\<exists>g l. rsi_sum_loop prices period (i + 1) gl' = Inr (g, l) \<and> 0 \<le> g \<and> 0 \<le> l"
      unfolding gl'_def change_def
      using 1(1) [OF True inr refl] 1(2,3) nn unfolding gl'_def change_def by simp
    moreover have "rsi_sum_loop prices period i gl = rsi_sum_loop prices period (i + 1) gl'"
      using True inr by (subst rsi_sum_loop.simps) (simp add: gl'_def change_def Let_def)
    ultimately show ?thesis by simp
  qed
qed

lemma rsi_smooth_nonneg:
  assumes "1 \<le> period" and "period \<le> MaxInt" and "0 \<le> fst gl" and "0 \<le> snd gl"
  shows "\<exists>g l. rsi_smooth period change gl = Inr (g, l) \<and> 0 \<le> g \<and> 0 \<le> l"
proof -
  have w: "wrap64 (period - 1) = period - 1"
    using assms(1,2) by (intro wrap64_id) (simp_all add: MaxInt_def)
  have p: "(0::rat) < of_int period" "(0::rat) \<le> of_int (period - 1)" using assms(1) by simp_all
  show ?thesis
  proof (cases "change > 0")
    case True
    obtain g where g: "Div (fst gl * of_int (period - 1) + change) (of_int period) = Inr g" "0 \<le> g"
      using Div_nonneg [OF _ p(1), of "fst gl * of_int (period - 1) + change"] assms(3) p(2) True
      by (auto simp del: of_int_diff)
    obtain l where l: "Div (snd gl * of_int (period - 1)) (of_int period) = Inr l" "0 \<le> l"
      using Div_nonneg [OF _ p(1), of "snd gl * of_int (period - 1)"] assms(4) p(2)
      by (auto simp del: of_int_diff)
    show ?thesis using True g l by (simp add: rsi_smooth_def w bind_def del: of_int_diff)
  next
    case False
    obtain g where g: "Div (fst gl * of_int (period - 1)) (of_int period) = Inr g" "0 \<le> g"
      using Div_nonneg [OF _ p(1), of "fst gl * of_int (period - 1)"] assms(3) p(2)
      by (auto simp del: of_int_diff)
    obtain l where l: "Div (snd gl * of_int (period - 1) + \<bar>change\<bar>) (of_int period) = Inr l" "0 \<le> l"
      using Div_nonneg [OF _ p(1), of "snd gl * of_int (period - 1) + \<bar>change\<bar>"] assms(4) p(2)
      by (auto simp del: of_int_diff)
    show ?thesis using False g l by (simp add: rsi_smooth_def w bind_def del: of_int_diff)
  qed
qed

lemma rsi_smooth_loop_nonneg:
  "1 \<le> i \<Longrightarrow> 1 \<le> period \<Longrightarrow> period \<le> MaxInt \<Longrightarrow> 0 \<le> fst gl \<Longrightarrow> 0 \<le> snd gl \<Longrightarrow>
   \<exists>g l. rsi_smooth_loop prices period i gl = Inr (g, l) \<and> 0 \<le> g \<and> 0 \<le> l"
proof (induction prices period i gl rule: rsi_smooth_loop.induct)
  case (1 prices period i gl)
  show ?case
  proof (cases "i < int (length prices)")
    case False
    then show ?thesis using 1(5,6) by (subst rsi_smooth_loop.simps) (cases gl, simp)
  next
    case True
    obtain g l where s: "rsi_smooth period (prices ! nat i - prices ! nat (i - 1)) gl = Inr (g, l)"
      "0 \<le> g" "0 \<le> l"
      using rsi_smooth_nonneg [OF 1(3,4,5,6)] by blast
    have "\<exists>g' l'. rsi_smooth_loop prices period (i + 1) (g, l) = Inr (g', l') \<and> 0 \<le> g' \<and> 0 \<le> l'"
      using 1(1) [OF True 1(2) s(1)] 1(2,3,4) s(2,3) by simp
    moreover have "rsi_smooth_loop prices period i gl = rsi_smooth_loop prices period (i + 1) (g, l)"
      using True 1(2) s(1) by (subst rsi_smooth_loop.simps) simp
    ultimately show ?thesis by simp
  qed
qed

lemma rsi_averages_nonneg:
  assumes "1 \<le> period" and "period < int (length prices)" and "int (length prices) \<le> MaxInt"
  shows "\<exists>g l. rsi_averages prices period = Inr (g, l) \<and> 0 \<le> g \<and> 0 \<le> l"
proof -
  have w: "wrap64 (period + 1) = period + 1"
    using assms by (intro wrap64_id) (simp_all add: MaxInt_def)
  obtain g l where s: "rsi_sum_loop prices period 1 (0, 0) = Inr (g, l)" "0 \<le> g" "0 \<le> l"
    using rsi_sum_loop_nonneg [of 1 period prices "(0, 0)"] assms(2) by auto
  have p: "(0::rat) < of_int period" using assms(1) by simp
  obtain ag where ag: "Div g (of_int period) = Inr ag" "0 \<le> ag"
    using Div_nonneg [OF s(2) p] by blast
  obtain al where al: "Div l (of_int period) = Inr al" "0 \<le> al"
    using Div_nonneg [OF s(3) p] by blast
  have "\<exists>g' l'. rsi_smooth_loop prices period (period + 1) (ag, al) = Inr (g', l') \<and> 0 \<le> g' \<and> 0 \<le> l'"
    using rsi_smooth_loop_nonneg [of "period + 1" period "(ag, al)" prices] assms ag(2) al(2)
    by simp
  then show ?thesis using s(1) ag(1) al(1) by (simp add: rsi_averages_def bind_def w)
qed

lemma calculateRSI_bounds:
  assumes "1 \<le> period" and "period < int (length prices)" and "int (length prices) \<le> MaxInt"
  shows "\<exists>r. calculateRSI prices period = Inr r \<and> 0 \<le> r \<and> r \<le> 100
           \<and> (if \<exists>g. rsi_averages prices period = Inr (g, 0) then r = 100 else True)"
proof -
  have w: "wrap64 (period + 1) = period + 1"
    using assms by (intro wrap64_id) (simp_all add: MaxInt_def)
  obtain g l where a: "rsi_averages prices period = Inr (g, l)" "0 \<le> g" "0 \<le> l"
    using rsi_averages_nonneg [OF assms] by blast
  show ?thesis
  proof (cases "l = 0")
    case True
    then show ?thesis using a(1) assms(2) by (simp add: calculateRSI_def w bind_def)
  next
    case False
    then have lpos: "0 < l" using a(3) by simp
    obtain rs where rs: "Div g l = Inr rs" "0 \<le> rs" using Div_nonneg [OF a(2) lpos] by blast
    have "1 + rs \<noteq> 0" using rs(2) by simp
    moreover have "of_int 0 \<le> 100 / (1 + rs)" using rs(2) by simp
    moreover have "100 / (1 + rs) \<le> of_int 100" using rs(2) by (simp add: divide_le_eq)
    ultimately obtain q where q: "Div 100 (1 + rs) = Inr q" "0 \<le> q" "q \<le> 100"
      using Div_bounds [of "1 + rs" 0 100 100] by auto
    show ?thesis using a(1) False rs(1) q assms(2) by (simp add: calculateRSI_def w bind_def)
  qed
qed

lemma highest_loop_ge_init: "h \<le> highest_loop ps h"
proof (induction ps arbitrary: h)
  case Nil
  show ?case by simp
next
  case (Cons p ps)
  have "h \<le> (if p > h then p else h)" by simp
  also have "\<dots> \<le> highest_loop ps (if p > h then p else h)" by (rule Cons.IH)
  finally show ?case by simp
qed

lemma highest_loop_ge_mem: "x \<in> set ps \<Longrightarrow> x \<le> highest_loop ps h"
proof (induction ps arbitrary: h)
  case Nil
  then show ?case by simp
next
  case (Cons p ps)
  show ?case
  proof (cases "x = p")
    case True
    have "p \<le> (if p > h then p else h)" by simp
    also have "\<dots> \<le> highest_loop ps (if p > h then p else h)" by (rule highest_loop_ge_init)
    finally show ?thesis using True by simp
  next
    case False
    then have "x \<in> set ps" using Cons.prems by simp
    then show ?thesis using Cons.IH by simp
  qed
qed

lemma lowest_loop_le_init: "lowest_loop ps l \<le> l"
proof (induction ps arbitrary: l)
  case Nil
  show ?case by simp
next
  case (Cons p ps)
  have "lowest_loop ps (if p < l then p else l) \<le> (if p < l then p else l)" by (rule Cons.IH)
  also have "\<dots> \<le> l" by simp
  finally show ?case by simp
qed

lemma lowest_loop_le_mem: "x \<in> set ps \<Longrightarrow> lowest_loop ps l \<le> x"
proof (induction ps arbitrary: l)
  case Nil
  then show ?case by simp
next
  case (Cons p ps)
  show ?case
  proof (cases "x = p")
    case True
    have "lowest_loop ps (if p < l then p else l) \<le> (if p < l then p else l)"
      by (rule lowest_loop_le_init)
    also have "\<dots> \<le> p" by simp
    finally show ?thesis using True by simp
  next
    case False
    then have "x \<in> set ps" using Cons.prems by simp
    then show ?thesis using Cons.IH by simp
  qed
qed

lemma window_slice:
  assumes "1 \<le> k" and "k \<le> int (length xs)" and "int (length xs) \<le> MaxInt"
  shows "slice_from xs (wrap64 (int (length xs) - k)) = Inr (last_bars k xs)"
    and "x \<in> set (last_bars k xs) \<Longrightarrow>
         findLowest (last_bars k xs) k \<le> x \<and> x \<le> findHighest (last_bars k xs) k"
proof -
  define ws where "ws = last_bars k xs"
  have w: "wrap64 (int (length xs) - k) = int (length xs) - k"
    using assms by (intro wrap64_id) (simp_all add: MaxInt_def)
  have len: "int (length ws) = k" using assms by (simp add: ws_def last_bars_def)
  then have ne: "ws \<noteq> []" using assms(1) by auto
  have w0: "wrap64 (int (length ws) - k) = 0" using len by (simp add: wrap64_def)
  have "findHighest ws k = highest_loop ws (ws ! 0)" "findLowest ws k = lowest_loop ws (ws ! 0)"
    using ne w0 by (simp_all add: findHighest_def findLowest_def)
  then show "x \<in> set (last_bars k xs) \<Longrightarrow>
         findLowest (last_bars k xs) k \<le> x \<and> x \<le> findHighest (last_bars k xs) k"
    using highest_loop_ge_mem [of x ws] lowest_loop_le_mem [of x ws] by (simp add: ws_def)
  show "slice_from xs (wrap64 (int (length xs) - k)) = Inr (last_bars k xs)"
    using assms by (simp add: slice_from_def w last_bars_def)
qed

lemma index_last:
  assumes "1 \<le> k" and "k \<le> int (length xs)"
  shows "index xs (int (length xs) - 1) = Inr (last xs)"
proof -
  have ne: "xs \<noteq> []" using assms by auto
  then have "xs ! nat (int (length xs) - 1) = last xs"
    by (simp add: last_conv_nth nat_diff_distrib')
  then show ?thesis using ne by (simp add: index_def)
qed

lemma calculateStochastic_bounds:
  assumes "1 \<le> n" and "n \<le> int (length closes)"
    and "n \<le> int (length highs)" and "int (length highs) \<le> MaxInt"
    and "n \<le> int (length lows)" and "int (length lows) \<le> MaxInt"
    and "l \<in> set (last_bars n lows)" and "l \<le> last closes"
    and "h \<in> set (last_bars n highs)" and "last closes \<le> h"
  shows "\<exists>k d. calculateStochastic highs lows closes n dPeriod = Inr (k, d) \<and> 0 \<le> k \<and> k \<le> 100"
proof -
  define hs ls where "hs = last_bars n highs" and "ls = last_bars n lows"
  have hs: "slice_from highs (wrap64 (int (length highs) - n)) = Inr hs"
    "h \<le> findHighest hs n"
    using window_slice [OF assms(1,3,4)] assms(9) by (simp_all add: hs_def)
  have ls: "slice_from lows (wrap64 (int (length lows) - n)) = Inr ls"
    "findLowest ls n \<le> l"
    using window_slice [OF assms(1,5,6)] assms(7) by (simp_all add: ls_def)
  define hi lo c where "hi = findHighest hs n" and "lo = findLowest ls n" and "c = last closes"
  have c: "index closes (int (length closes) - 1) = Inr c"
    unfolding c_def by (rule index_last [OF assms(1,2)])
  have ord: "lo \<le> c" "c \<le> hi"
    using hs(2) ls(2) assms(8,10) by (simp_all add: hi_def lo_def c_def)
  show ?thesis
  proof (cases "hi = lo")
    case True
    then show ?thesis using assms(2) c hs(1) ls(1)
      by (simp add: calculateStochastic_def bind_def Let_def hi_def lo_def)
  next
    case False
    then have pos: "0 < hi - lo" using ord by simp
    have "of_int 0 \<le> (c - lo) / (hi - lo)" using ord pos by simp
    moreover have "(c - lo) / (hi - lo) \<le> of_int 1" using ord pos by (simp add: divide_le_eq)
    ultimately obtain q where q: "Div (c - lo) (hi - lo) = Inr q" "0 \<le> q" "q \<le> 1"
      using Div_bounds [of "hi - lo" 0 "c - lo" 1] pos by auto
    show ?thesis using assms(2) c hs(1) ls(1) False q
      by (simp add: calculateStochastic_def bind_def Let_def hi_def [symmetric] lo_def [symmetric])
  qed
qed

lemma calculateWilliamsR_bounds:
  assumes "1 \<le> n" and "n \<le> int (length closes)"
    and "n \<le> int (length highs)" and "int (length highs) \<le> MaxInt"
    and "n \<le> int (length lows)" and "int (length lows) \<le> MaxInt"
    and "l \<in> set (last_bars n lows)" and "l \<le> last closes"
    and "h \<in> set (last_bars n highs)" and "last closes \<le> h"
  shows "\<exists>w. calculateWilliamsR highs lows closes n = Inr w \<and> - 100 \<le> w \<and> w \<le> 0"
proof -
  define hs ls where "hs = last_bars n highs" and "ls = last_bars n lows"
  have hs: "slice_from highs (wrap64 (int (length highs) - n)) = Inr hs"
    "h \<le> findHighest hs n"
    using window_slice [OF assms(1,3,4)] assms(9) by (simp_all add: hs_def)
  have ls: "slice_from lows (wrap64 (int (length lows) - n)) = Inr ls"
    "findLowest ls n \<le> l"
    using window_slice [OF assms(1,5,6)] assms(7) by (simp_all add: ls_def)
  define hi lo c where "hi = findHighest hs n" and "lo = findLowest ls n" and "c = last closes"
  have c: "index closes (int (length closes) - 1) = Inr c"
    unfolding c_def by (rule index_last [OF assms(1,2)])
  have ord: "lo \<le> c" "c \<le> hi"
    using hs(2) ls(2) assms(8,10) by (simp_all add: hi_def lo_def c_def)
  show ?thesis
  proof (cases "hi = lo")
    case True
    then show ?thesis using assms(2) c hs(1) ls(1)
      by (simp add: calculateWilliamsR_def bind_def Let_def hi_def lo_def)
  next
    case False
    then have pos: "0 < hi - lo" using ord by simp
    have "of_int 0 \<le> (hi - c) / (hi - lo)" using ord pos by simp
    moreover have "(hi - c) / (hi - lo) \<le> of_int 1" using ord pos by (simp add: divide_le_eq)
    ultimately obtain q where q: "Div (hi - c) (hi - lo) = Inr q" "0 \<le> q" "q \<le> 1"
      using Div_bounds [of "hi - lo" 0 "hi - c" 1] pos by auto
    show ?thesis using assms(2) c hs(1) ls(1) False q
      by (simp add: calculateWilliamsR_def bind_def Let_def hi_def [symmetric] lo_def [symmetric])
  qed
qed




text \<open>
  C7, as amended.  For a price window longer than the period, \<open>calculateRSI\<close> returns a
  value within [0, 100], and exactly 100 when the smoothed average loss is zero.  For
  highs, lows and closes of at least \<open>n\<close> bars whose latest close is no lower than some
  low and no higher than some high of the last \<open>n\<close> bars (as it is when the latest bar has
  low \<le> close \<le> high), \<open>calculateWilliamsR\<close> returns a value within [-100, 0] and the
  %K of \<open>calculateStochastic\<close> is within [0, 100].  None of the three panics.
\<close>

theorem oscillator_bounds:
  assumes "1 \<le> period" and "period < int (length prices)" and "int (length prices) \<le> MaxInt"
    and "1 \<le> n" and "n \<le> int (length closes)"
    and "n \<le> int (length highs)" and "int (length highs) \<le> MaxInt"
    and "n \<le> int (length lows)" and "int (length lows) \<le> MaxInt"
    and "l \<in> set (last_bars n lows)" and "l \<le> last closes"
    and "h \<in> set (last_bars n highs)" and "last closes \<le> h"
  shows "(\<exists>r. calculateRSI prices period = Inr r \<and> 0 \<le> r \<and> r \<le> 100
             \<and> ((\<exists>g. rsi_averages prices period = Inr (g, 0)) \<longrightarrow> r = 100))
       \<and> (\<exists>w. calculateWilliamsR highs lows closes n = Inr w \<and> - 100 \<le> w \<and> w \<le> 0)
       \<and> (\<exists>k d. calculateStochastic highs lows closes n dPeriod = Inr (k, d)
             \<and> 0 \<le> k \<and> k \<le> 100)"
proof (intro conjI)
  show "\<exists>r. calculateRSI prices period = Inr r \<and> 0 \<le> r \<and> r \<le> 100
          \<and> ((\<exists>g. rsi_averages prices period = Inr (g, 0)) \<longrightarrow> r = 100)"
    using calculateRSI_bounds [OF assms(1,2,3)] by (auto split: if_splits)
  show "\<exists>w. calculateWilliamsR highs lows closes n = Inr w \<and> - 100 \<le> w \<and> w \<le> 0"
    by (rule calculateWilliamsR_bounds [OF assms(4-13)])
  show "\<exists>k d. calculateStochastic highs lows closes n dPeriod = Inr (k, d) \<and> 0 \<le> k \<and> k \<le> 100"
    by (rule calculateStochastic_bounds [OF assms(4-13)])
qed

text \<open>C7, an instance: four prices with a period of 2, and three bars with a window of 2.\<close>

theorem oscillator_bounds_witness:
  "(\<exists>r. calculateRSI [1, 3, 2, 5] 2 = Inr r \<and> 0 \<le> r \<and> r \<le> 100
      \<and> ((\<exists>g. rsi_averages [1, 3, 2, 5] 2 = Inr (g, 0)) \<longrightarrow> r = 100))
   \<and> (\<exists>w. calculateWilliamsR [3, 4, 5] [1, 2, 3] [2, 3, 4] 2 = Inr w \<and> - 100 \<le> w \<and> w \<le> 0)
   \<and> (\<exists>k d. calculateStochastic [3, 4, 5] [1, 2, 3] [2, 3, 4] 2 3 = Inr (k, d)
         \<and> 0 \<le> k \<and> k \<le> 100)"
  using oscillator_bounds [of 2 "[1, 3, 2, 5]" 2 "[2, 3, 4]" "[3, 4, 5]" "[1, 2, 3]" 3 5 3]
  by (simp add: MaxInt_def last_bars_def)

text \<open>
  C7 as stated fails where the latest close lies outside the range of the window: with
  highs of 100, lows of 0 and a latest close of 200, %K is 200 and Williams %R is 100.
\<close>

theorem oscillator_close_outside_range_counterexample:
  "int (length (replicate 13 50 @ [200 :: decimal])) \<ge> 14
   \<and> calculateStochastic (replicate 14 100) (replicate 14 0) (replicate 13 50 @ [200]) 14 3
       = Inr (200, 200)
   \<and> calculateWilliamsR (replicate 14 100) (replicate 14 0) (replicate 13 50 @ [200]) 14
       = Inr 100"
  by code_simp

section \<open>Properties of the signal scorer\<close>

lemma tally_acc:
  "tally vs (b, s, t) =
     (b + count_votes ''BUY'' vs, s + count_votes ''SELL'' vs, t + total_weight vs)"
  by (induction vs arbitrary: b s t) (simp_all add: count_votes_def total_weight_def)

lemma count_votes_append:
  "count_votes d (xs @ ys) = count_votes d xs + count_votes d ys"
  by (simp add: count_votes_def)

lemma total_weight_append: "total_weight (xs @ ys) = total_weight xs + total_weight ys"
  by (simp add: total_weight_def)

lemma one_vote_rsi: "one_vote (3 / 10) (rsi_analysis cfg ind)"
  by (simp add: one_vote_def rsi_analysis_def cast_def count_votes_def total_weight_def)

lemma one_vote_macd: "one_vote (25 / 100) (macd_analysis ind)"
  by (simp add: one_vote_def macd_analysis_def cast_def count_votes_def total_weight_def)

lemma one_vote_bollinger: "one_vote (2 / 10) (bollinger_analysis md ind)"
  by (simp add: one_vote_def bollinger_analysis_def cast_def count_votes_def total_weight_def)

lemma one_vote_fear_greed: "one_vote (15 / 100) (fear_greed_analysis cfg md)"
  by (simp add: one_vote_def fear_greed_analysis_def cast_def count_votes_def total_weight_def)

lemma one_vote_price_action: "one_vote (1 / 10) (price_action_analysis md ind)"
  by (simp add: one_vote_def price_action_analysis_def cast_def count_votes_def total_weight_def)

lemma votes_cast_facts:
  fixes cfg md ind
  defines "votes \<equiv> votes_cast cfg md ind"
  shows "count_votes ''BUY'' votes + count_votes ''SELL'' votes = int (length votes)"
    and "length votes \<le> 5"
    and "0 \<le> count_votes ''BUY'' votes" and "0 \<le> count_votes ''SELL'' votes"
    and "0 \<le> total_weight votes" and "total_weight votes \<le> 1"
  using one_vote_rsi [of cfg ind] one_vote_macd [of ind] one_vote_bollinger [of md ind]
    one_vote_fear_greed [of cfg md] one_vote_price_action [of md ind]
  unfolding votes_def votes_cast_def one_vote_def
  by (simp_all add: count_votes_append total_weight_append)

lemma float_quotient_unit:
  assumes "0 \<le> a" and "a \<le> b" and "1 \<le> b"
  shows "\<exists>r. float_quotient a b = Inr r \<and> 0 \<le> r \<and> r \<le> 1"
proof -
  define r :: rat where
    "r = (if b = 3 \<and> a = 1 then 3333333333333333 / 10 ^ 16
          else if b = 3 \<and> a = 2 then 6666666666666666 / 10 ^ 16 else of_int a / of_int b)"
  have "float_quotient a b = Inr r" using assms(3) by (simp add: float_quotient_def r_def)
  moreover have "0 \<le> r \<and> r \<le> 1" using assms by (simp add: r_def divide_le_eq)
  ultimately show ?thesis by blast
qed

text \<open>The table of \<open>float_quotient\<close> is what the float64 division and \<open>NewFromFloat\<close>
  give, for every count of winning votes among one to five votes.\<close>

lemma float_quotient_is_float64:
  "list_all (\<lambda>b. list_all (\<lambda>a.
       float_quotient a b = Inr (NewFromFloat (float64_div (of_int a) (of_int b)))) [0..b])
     [1..5]"
  by code_simp

lemma float_quotient_majority:
  assumes "b - a < a" and "a \<le> b"
  shows "float_quotient a b
         = Inr (if a = 2 \<and> b = 3 then 6666666666666666 / 10 ^ 16 else of_int a / of_int b)"
  using assms by (auto simp: float_quotient_def)

lemma decide_eq:
  "decide votes =
     (if count_votes ''BUY'' votes > count_votes ''SELL'' votes then
        bind (float_quotient (count_votes ''BUY'' votes) (int (length votes)))
          (\<lambda>ratio. Inr (''BUY'', total_weight votes * ratio))
      else if count_votes ''SELL'' votes > count_votes ''BUY'' votes then
        bind (float_quotient (count_votes ''SELL'' votes) (int (length votes)))
          (\<lambda>ratio. Inr (''SELL'', total_weight votes * ratio))
      else Inr (''HOLD'', 1 / 10))"
  by (simp add: decide_def tally_acc)

lemma analyzeMarketConditions_eq:
  assumes "decide (votes_cast cfg md ind) = Inr (a, c)"
  shows "\<exists>d. analyzeMarketConditions cfg md ind = Inr d \<and> Action d = a \<and> Confidence d = c
           \<and> EntryPrice d = Price md
           \<and> (StopLoss d, TakeProfit1 d, TakeProfit2 d) = price_targets cfg a (Price md)"
  using assms
  by (simp add: analyzeMarketConditions_def bind_def Let_def split: prod.splits)

lemma decide_votes_cast:
  fixes cfg md ind
  defines "votes \<equiv> votes_cast cfg md ind"
  defines "b \<equiv> count_votes ''BUY'' votes" and "s \<equiv> count_votes ''SELL'' votes"
  shows "(s < b \<and> (\<exists>r. float_quotient b (int (length votes)) = Inr r \<and> 0 \<le> r \<and> r \<le> 1
              \<and> decide votes = Inr (''BUY'', total_weight votes * r)))
       \<or> (b < s \<and> (\<exists>r. float_quotient s (int (length votes)) = Inr r \<and> 0 \<le> r \<and> r \<le> 1
              \<and> decide votes = Inr (''SELL'', total_weight votes * r)))
       \<or> (b = s \<and> decide votes = Inr (''HOLD'', 1 / 10))"
proof -
  have n: "b + s = int (length votes)" and nn: "0 \<le> b" "0 \<le> s"
    using votes_cast_facts(1,3,4) [of cfg md ind] by (simp_all add: b_def s_def votes_def)
  consider "s < b" | "b < s" | "b = s" by linarith
  then show ?thesis
  proof cases
    case 1
    obtain r where "float_quotient b (int (length votes)) = Inr r" "0 \<le> r" "r \<le> 1"
      using float_quotient_unit [of b "int (length votes)"] 1 n nn by auto
    then show ?thesis using 1 by (simp add: decide_eq bind_def b_def s_def)
  next
    case 2
    obtain r where "float_quotient s (int (length votes)) = Inr r" "0 \<le> r" "r \<le> 1"
      using float_quotient_unit [of s "int (length votes)"] 2 n nn by auto
    then show ?thesis using 2 by (simp add: decide_eq bind_def b_def s_def)
  next
    case 3
    then show ?thesis by (simp add: decide_eq b_def s_def)
  qed
qed

text \<open>
  C3.  For every configuration, market snapshot and indicator set, whatever votes the five
  rule groups cast, \<open>analyzeMarketConditions\<close> returns a decision (it does not panic)
  whose confidence lies within [0, 1].
\<close>

theorem confidence_in_unit_interval:
  "\<exists>d. analyzeMarketConditions cfg md ind = Inr d \<and> 0 \<le> Confidence d \<and> Confidence d \<le> 1"
proof -
  define votes where "votes = votes_cast cfg md ind"
  have tw: "0 \<le> total_weight votes" "total_weight votes \<le> 1"
    using votes_cast_facts(5,6) [of cfg md ind] by (simp_all add: votes_def)
  have prod: "0 \<le> total_weight votes * r \<and> total_weight votes * r \<le> 1"
    if "0 \<le> r" "r \<le> 1" for r
    using tw that by (simp add: mult_le_one)
  have "\<exists>a c. decide votes = Inr (a, c) \<and> 0 \<le> c \<and> c \<le> 1"
    using decide_votes_cast [of cfg md ind] unfolding votes_def [symmetric]
  proof (elim disjE conjE exE)
    fix r
    assume "0 \<le> r" "r \<le> 1" "decide votes = Inr (''BUY'', total_weight votes * r)"
    then show ?thesis using prod [of r] by blast
  next
    fix r
    assume "0 \<le> r" "r \<le> 1" "decide votes = Inr (''SELL'', total_weight votes * r)"
    then show ?thesis using prod [of r] by blast
  next
    have "(0::rat) \<le> 1 / 10 \<and> (1::rat) / 10 \<le> 1" by simp
    moreover assume "decide votes = Inr (''HOLD'', 1 / 10)"
    ultimately show ?thesis by blast
  qed
  then obtain a c where "decide votes = Inr (a, c)" "0 \<le> c" "c \<le> 1" by blast
  then show ?thesis using analyzeMarketConditions_eq [of cfg md ind a c]
    by (auto simp: votes_def)
qed

text \<open>C3, an instance: three BUY votes against two SELL votes.\<close>

theorem confidence_in_unit_interval_witness:
  "\<exists>d. analyzeMarketConditions default_config (snapshot 100 90) (readings 20 2 1 130 110 105 10 11)
         = Inr d \<and> 0 \<le> Confidence d \<and> Confidence d \<le> 1"
  using confidence_in_unit_interval
    [of default_config "snapshot 100 90" "readings 20 2 1 130 110 105 10 11"] .

lemma majority_bounds:
  fixes cfg md ind
  defines "votes \<equiv> votes_cast cfg md ind"
  defines "b \<equiv> count_votes ''BUY'' votes" and "s \<equiv> count_votes ''SELL'' votes"
  shows "b + s = int (length votes)" and "0 \<le> b" and "0 \<le> s"
  using votes_cast_facts(1,3,4) [of cfg md ind] by (simp_all add: b_def s_def votes_def)

text \<open>
  C1, as amended.  Whenever the BUY votes and the SELL votes differ in number,
  \<open>analyzeMarketConditions\<close> returns the winning direction, and its confidence is the sum
  of the weights of all the votes cast, in either direction, times the float64 quotient of
  the winning count by the number of votes: that quotient is the exact fraction, except
  that 2 votes of 3 give 0.6666666666666666.
\<close>

theorem confidence_formula:
  fixes cfg md ind
  defines "votes \<equiv> votes_cast cfg md ind"
  defines "b \<equiv> count_votes ''BUY'' votes" and "s \<equiv> count_votes ''SELL'' votes"
  assumes "b \<noteq> s"
  shows "\<exists>d. analyzeMarketConditions cfg md ind = Inr d
           \<and> Action d = (if s < b then ''BUY'' else ''SELL'')
           \<and> Confidence d =
               total_weight votes
                 * (if max b s = 2 \<and> length votes = 3 then 6666666666666666 / 10 ^ 16
                    else of_int (max b s) / of_int (int (length votes)))"
proof -
  have n: "b + s = int (length votes)" and nn: "0 \<le> b" "0 \<le> s"
    using majority_bounds [of cfg md ind] by (simp_all add: b_def s_def votes_def)
  show ?thesis
  proof (cases "s < b")
    case True
    have "float_quotient b (int (length votes))
          = Inr (if b = 2 \<and> int (length votes) = 3 then 6666666666666666 / 10 ^ 16
                 else of_int b / of_int (int (length votes)))"
      using True n nn by (intro float_quotient_majority) simp_all
    then have "decide votes
          = Inr (''BUY'', total_weight votes
                  * (if b = 2 \<and> int (length votes) = 3 then 6666666666666666 / 10 ^ 16
                     else of_int b / of_int (int (length votes))))"
      using True by (simp add: decide_eq bind_def b_def s_def)
    from analyzeMarketConditions_eq [OF this [unfolded votes_def]] True
    show ?thesis by (auto simp: votes_def max_def)
  next
    case False
    then have lt: "b < s" using assms(4) by simp
    have "float_quotient s (int (length votes))
          = Inr (if s = 2 \<and> int (length votes) = 3 then 6666666666666666 / 10 ^ 16
                 else of_int s / of_int (int (length votes)))"
      using lt n nn by (intro float_quotient_majority) simp_all
    then have "decide votes
          = Inr (''SELL'', total_weight votes
                  * (if s = 2 \<and> int (length votes) = 3 then 6666666666666666 / 10 ^ 16
                     else of_int s / of_int (int (length votes))))"
      using lt by (simp add: decide_eq bind_def b_def s_def)
    from analyzeMarketConditions_eq [OF this [unfolded votes_def]] lt
    show ?thesis by (auto simp: votes_def max_def)
  qed
qed

lemma example_votes:
  "votes_cast default_config (snapshot 100 90) (readings 20 2 1 130 110 105 12 11)
   = [cast ''BUY'' (3 / 10) (RSI_oversold 20), cast ''BUY'' (25 / 100) MACD_bullish_crossover,
      cast ''BUY'' (2 / 10) Price_below_lower_Bollinger_Band,
      cast ''SELL'' (15 / 100) (Extreme_greed_in_market 90)]"
  by (simp add: votes_cast_def rsi_analysis_def macd_analysis_def bollinger_analysis_def
      fear_greed_analysis_def price_action_analysis_def default_config_def snapshot_def
      readings_def)

text \<open>C1, an instance: three BUY votes (0.3, 0.25, 0.2) against one SELL vote (0.15).\<close>

theorem confidence_formula_witness:
  "count_votes ''BUY'' (votes_cast default_config (snapshot 100 90) (readings 20 2 1 130 110 105 12 11))
     \<noteq> count_votes ''SELL'' (votes_cast default_config (snapshot 100 90) (readings 20 2 1 130 110 105 12 11))
   \<and> (\<exists>d. analyzeMarketConditions default_config (snapshot 100 90) (readings 20 2 1 130 110 105 12 11) = Inr d
         \<and> Action d = ''BUY'' \<and> Confidence d = 9 / 10 * (3 / 4))"
  using confidence_formula [of default_config "snapshot 100 90" "readings 20 2 1 130 110 105 12 11"]
  by (simp add: example_votes count_votes_def total_weight_def cast_def)

text \<open>
  C1 as stated fails on the same input: the weights of the three BUY votes alone sum to
  0.75, which the specification's formula turns into 0.5625; the code adds the weight of
  the SELL vote as well and returns 0.9 * 0.75 = 0.675.
\<close>

theorem confidence_matched_weight_counterexample:
  "count_votes ''BUY'' (votes_cast default_config (snapshot 100 90) (readings 20 2 1 130 110 105 12 11)) = 3
   \<and> count_votes ''SELL'' (votes_cast default_config (snapshot 100 90) (readings 20 2 1 130 110 105 12 11)) = 1
   \<and> spec_confidence ''BUY'' (votes_cast default_config (snapshot 100 90) (readings 20 2 1 130 110 105 12 11)) = 9 / 16
   \<and> (\<exists>d. analyzeMarketConditions default_config (snapshot 100 90) (readings 20 2 1 130 110 105 12 11) = Inr d
         \<and> Action d = ''BUY'' \<and> Confidence d = 27 / 40)"
proof -
  have "decide (votes_cast default_config (snapshot 100 90) (readings 20 2 1 130 110 105 12 11))
        = Inr (''BUY'', 27 / 40)"
    by (simp add: example_votes decide_def cast_def float_quotient_def bind_def)
  from analyzeMarketConditions_eq [OF this]
  have "\<exists>d. analyzeMarketConditions default_config (snapshot 100 90)
               (readings 20 2 1 130 110 105 12 11) = Inr d
             \<and> Action d = ''BUY'' \<and> Confidence d = 27 / 40"
    by blast
  then show ?thesis
    by (simp add: example_votes count_votes_def spec_confidence_def matched_weight_def cast_def)
qed

lemma decide_action:
  "\<exists>a c. decide (votes_cast cfg md ind) = Inr (a, c)"
  using decide_votes_cast [of cfg md ind] by blast

lemma default_fractions:
  "NewFromFloat (float64_div (StopLossPercentage default_config) 100) = 5 / 100
   \<and> NewFromFloat (float64_div (TakeProfit1Percentage default_config) 100) = 3 / 100
   \<and> NewFromFloat (float64_div (TakeProfit2Percentage default_config) 100) = 6 / 100"
  by code_simp

lemma adjacent_fractions:
  "NewFromFloat (float64_div (StopLossPercentage adjacent_config) 100) = 5 / 100
   \<and> NewFromFloat (float64_div (TakeProfit1Percentage adjacent_config) 100)
       = 16000000000000004 / 10 ^ 18
   \<and> NewFromFloat (float64_div (TakeProfit2Percentage adjacent_config) 100)
       = 16000000000000004 / 10 ^ 18"
  by code_simp

lemma adjacent_are_float64:
  "float64_round (TakeProfit1Percentage adjacent_config) = TakeProfit1Percentage adjacent_config
   \<and> float64_round (TakeProfit2Percentage adjacent_config) = TakeProfit2Percentage adjacent_config"
  by code_simp

text \<open>
  C2, as amended.  The code makes a fraction of each configured percentage: the float64
  quotient of the percentage by 100, converted to a decimal.  For a positive price, a
  positive stop-loss fraction and take-profit fractions with
  0 < takeProfit1 fraction < takeProfit2 fraction, the decision of
  \<open>analyzeMarketConditions\<close> has stopLoss < entryPrice < takeProfit1 < takeProfit2 when its
  action is BUY, and takeProfit2 < takeProfit1 < entryPrice < stopLoss when its action is
  SELL.
\<close>

theorem targets_direction_consistent:
  fixes cfg md ind
  defines "stopLossPercent \<equiv> NewFromFloat (float64_div (StopLossPercentage cfg) 100)"
    and "takeProfit1Percent \<equiv> NewFromFloat (float64_div (TakeProfit1Percentage cfg) 100)"
    and "takeProfit2Percent \<equiv> NewFromFloat (float64_div (TakeProfit2Percentage cfg) 100)"
  assumes "0 < Price md" and "0 < stopLossPercent"
    and "0 < takeProfit1Percent" and "takeProfit1Percent < takeProfit2Percent"
  shows "\<exists>d. analyzeMarketConditions cfg md ind = Inr d
           \<and> (Action d = ''BUY'' \<longrightarrow>
                StopLoss d < EntryPrice d \<and> EntryPrice d < TakeProfit1 d
                \<and> TakeProfit1 d < TakeProfit2 d)
           \<and> (Action d = ''SELL'' \<longrightarrow>
                TakeProfit2 d < TakeProfit1 d \<and> TakeProfit1 d < EntryPrice d
                \<and> EntryPrice d < StopLoss d)"
proof -
  obtain a c where "decide (votes_cast cfg md ind) = Inr (a, c)"
    using decide_action by blast
  then obtain d where d: "analyzeMarketConditions cfg md ind = Inr d" "Action d = a"
    "EntryPrice d = Price md"
    "(StopLoss d, TakeProfit1 d, TakeProfit2 d) = price_targets cfg a (Price md)"
    using analyzeMarketConditions_eq by blast
  have buy: "StopLoss d < EntryPrice d \<and> EntryPrice d < TakeProfit1 d \<and> TakeProfit1 d < TakeProfit2 d"
    if "a = ''BUY''"
  proof -
    have t: "StopLoss d = Price md * (1 - stopLossPercent)"
      "TakeProfit1 d = Price md * (1 + takeProfit1Percent)"
      "TakeProfit2 d = Price md * (1 + takeProfit2Percent)"
      using d(4) that
      by (simp_all add: price_targets_def Let_def stopLossPercent_def takeProfit1Percent_def
          takeProfit2Percent_def)
    have "Price md * (1 - stopLossPercent) < Price md * 1"
      using assms(4,5) by (intro mult_strict_left_mono) simp_all
    moreover have "Price md * 1 < Price md * (1 + takeProfit1Percent)"
      using assms(4,6) by (intro mult_strict_left_mono) simp_all
    moreover have "Price md * (1 + takeProfit1Percent) < Price md * (1 + takeProfit2Percent)"
      using assms(4,7) by (intro mult_strict_left_mono) simp_all
    ultimately show ?thesis using t d(3) by simp
  qed
  have sell: "TakeProfit2 d < TakeProfit1 d \<and> TakeProfit1 d < EntryPrice d \<and> EntryPrice d < StopLoss d"
    if "a = ''SELL''"
  proof -
    have t: "StopLoss d = Price md * (1 + stopLossPercent)"
      "TakeProfit1 d = Price md * (1 - takeProfit1Percent)"
      "TakeProfit2 d = Price md * (1 - takeProfit2Percent)"
      using d(4) that
      by (simp_all add: price_targets_def Let_def stopLossPercent_def takeProfit1Percent_def
          takeProfit2Percent_def)
    have "Price md * 1 < Price md * (1 + stopLossPercent)"
      using assms(4,5) by (intro mult_strict_left_mono) simp_all
    moreover have "Price md * (1 - takeProfit1Percent) < Price md * 1"
      using assms(4,6) by (intro mult_strict_left_mono) simp_all
    moreover have "Price md * (1 - takeProfit2Percent) < Price md * (1 - takeProfit1Percent)"
      using assms(4,7) by (intro mult_strict_left_mono) simp_all
    ultimately show ?thesis using t d(3) by simp
  qed
  show ?thesis using d(1,2) buy sell by blast
qed

text \<open>C2, an instance: the default percentages 5, 3 and 6, whose fractions are 0.05, 0.03
  and 0.06, at a price of 100.\<close>

theorem targets_direction_consistent_witness:
  "0 < Price (snapshot 100 90)
   \<and> 0 < NewFromFloat (float64_div (StopLossPercentage default_config) 100)
   \<and> 0 < NewFromFloat (float64_div (TakeProfit1Percentage default_config) 100)
   \<and> NewFromFloat (float64_div (TakeProfit1Percentage default_config) 100)
       < NewFromFloat (float64_div (TakeProfit2Percentage default_config) 100)
   \<and> (\<exists>d. analyzeMarketConditions default_config (snapshot 100 90)
             (readings 20 2 1 130 110 105 12 11) = Inr d
         \<and> (Action d = ''BUY'' \<longrightarrow>
              StopLoss d < EntryPrice d \<and> EntryPrice d < TakeProfit1 d
              \<and> TakeProfit1 d < TakeProfit2 d)
         \<and> (Action d = ''SELL'' \<longrightarrow>
              TakeProfit2 d < TakeProfit1 d \<and> TakeProfit1 d < EntryPrice d
              \<and> EntryPrice d < StopLoss d))"
  using targets_direction_consistent
    [of "snapshot 100 90" default_config "readings 20 2 1 130 110 105 12 11"]
  by (simp add: default_fractions snapshot_def)

lemma adjacent_strong_buy:
  "decide (votes_cast adjacent_config (snapshot 100 10) (readings 20 2 1 130 110 95 12 11))
   = Inr (''BUY'', 1)"
proof -
  have "votes_cast adjacent_config (snapshot 100 10) (readings 20 2 1 130 110 95 12 11)
      = [cast ''BUY'' (3 / 10) (RSI_oversold 20), cast ''BUY'' (25 / 100) MACD_bullish_crossover,
         cast ''BUY'' (2 / 10) Price_below_lower_Bollinger_Band,
         cast ''BUY'' (15 / 100) (Extreme_fear_in_market 10),
         cast ''BUY'' (1 / 10) Price_above_SMA20_with_bullish_EMA_crossover]"
    by (simp add: votes_cast_def rsi_analysis_def macd_analysis_def bollinger_analysis_def
      fear_greed_analysis_def price_action_analysis_def adjacent_config_def default_config_def
      snapshot_def readings_def)
  then show ?thesis
    by (simp add: decide_def cast_def float_quotient_def bind_def)
qed

text \<open>
  C2 as stated fails where the float64 division merges two percentages: 1.6000000000000003
  and 1.6000000000000005 are float64 values with 0 < takeProfit1 < takeProfit2, both
  quotients by 100 are the float64 0.016000000000000004, and the BUY decision has
  takeProfit1 = takeProfit2 = 101.6000000000000004.
\<close>

theorem targets_merged_counterexample:
  "0 < Price (snapshot 100 10) \<and> 0 < StopLossPercentage adjacent_config
   \<and> 0 < TakeProfit1Percentage adjacent_config
   \<and> TakeProfit1Percentage adjacent_config < TakeProfit2Percentage adjacent_config
   \<and> float64_round (TakeProfit1Percentage adjacent_config) = TakeProfit1Percentage adjacent_config
   \<and> float64_round (TakeProfit2Percentage adjacent_config) = TakeProfit2Percentage adjacent_config
   \<and> (\<exists>d. analyzeMarketConditions adjacent_config (snapshot 100 10)
             (readings 20 2 1 130 110 95 12 11) = Inr d
         \<and> Action d = ''BUY''
         \<and> TakeProfit1 d = 1016000000000000004 / 10 ^ 16
         \<and> TakeProfit2 d = 1016000000000000004 / 10 ^ 16)"
proof -
  obtain d where d: "analyzeMarketConditions adjacent_config (snapshot 100 10)
      (readings 20 2 1 130 110 95 12 11) = Inr d" "Action d = ''BUY''"
    "(StopLoss d, TakeProfit1 d, TakeProfit2 d)
       = price_targets adjacent_config ''BUY'' (Price (snapshot 100 10))"
    using analyzeMarketConditions_eq [OF adjacent_strong_buy] by blast
  have "price_targets adjacent_config ''BUY'' (Price (snapshot 100 10))
      = (95, 1016000000000000004 / 10 ^ 16, 1016000000000000004 / 10 ^ 16)"
    by (simp add: price_targets_def Let_def adjacent_fractions snapshot_def)
  then have "TakeProfit1 d = 1016000000000000004 / 10 ^ 16
      \<and> TakeProfit2 d = 1016000000000000004 / 10 ^ 16"
    using d(3) by simp
  moreover have "0 < StopLossPercentage adjacent_config \<and> 0 < TakeProfit1Percentage adjacent_config
      \<and> TakeProfit1Percentage adjacent_config < TakeProfit2Percentage adjacent_config"
    by (simp add: adjacent_config_def default_config_def)
  ultimately show ?thesis using d(1,2) adjacent_are_float64 by (auto simp: snapshot_def)
qed

text \<open>
  C4.  Whenever the BUY votes and the SELL votes are equal in number, in particular when
  no rule group votes, \<open>analyzeMarketConditions\<close> returns a decision (the quotient by the
  number of votes is not taken, so nothing panics on a zero count) with action HOLD and
  confidence exactly 0.1, whatever the weights of the votes.
\<close>

theorem tie_is_hold:
  assumes "count_votes ''BUY'' (votes_cast cfg md ind) = count_votes ''SELL'' (votes_cast cfg md ind)"
  shows "\<exists>d. analyzeMarketConditions cfg md ind = Inr d \<and> Action d = ''HOLD''
           \<and> Confidence d = 1 / 10"
proof -
  have "decide (votes_cast cfg md ind) = Inr (''HOLD'', 1 / 10)"
    using assms by (simp add: decide_eq)
  from analyzeMarketConditions_eq [OF this] show ?thesis by blast
qed

lemma no_votes_example:
  "votes_cast default_config (snapshot 100 50) (readings 50 1 1 130 90 100 11 11) = []"
  by (simp add: votes_cast_def rsi_analysis_def macd_analysis_def bollinger_analysis_def
      fear_greed_analysis_def price_action_analysis_def default_config_def snapshot_def
      readings_def)

text \<open>C4, an instance: readings on which no rule group votes.\<close>

theorem tie_is_hold_witness:
  "votes_cast default_config (snapshot 100 50) (readings 50 1 1 130 90 100 11 11) = []
   \<and> (\<exists>d. analyzeMarketConditions default_config (snapshot 100 50)
             (readings 50 1 1 130 90 100 11 11) = Inr d
         \<and> Action d = ''HOLD'' \<and> Confidence d = 1 / 10)"
  using tie_is_hold [of default_config "snapshot 100 50" "readings 50 1 1 130 90 100 11 11"]
  by (simp add: no_votes_example count_votes_def)

lemma hold_example:
  "\<exists>d. analyzeMarketConditions default_config (snapshot 100 50)
         (readings 50 1 1 130 90 100 11 11) = Inr d \<and> Action d = ''HOLD''"
proof -
  have "decide (votes_cast default_config (snapshot 100 50) (readings 50 1 1 130 90 100 11 11))
        = Inr (''HOLD'', 1 / 10)"
    by (simp add: no_votes_example decide_def)
  from analyzeMarketConditions_eq [OF this] show ?thesis by blast
qed

text \<open>
  C10.  The decision of \<open>analyzeMarketConditions\<close> always has the current market price as
  its entry price, and when its action is HOLD its stop loss and both take-profit targets
  are exactly zero.
\<close>

theorem hold_leaves_targets_zero:
  "\<exists>d. analyzeMarketConditions cfg md ind = Inr d \<and> EntryPrice d = Price md
     \<and> (Action d = ''HOLD'' \<longrightarrow> StopLoss d = 0 \<and> TakeProfit1 d = 0 \<and> TakeProfit2 d = 0)"
proof -
  obtain a c where ac: "decide (votes_cast cfg md ind) = Inr (a, c)"
    using decide_action by blast
  then obtain d where d: "analyzeMarketConditions cfg md ind = Inr d" "Action d = a"
    "EntryPrice d = Price md"
    "(StopLoss d, TakeProfit1 d, TakeProfit2 d) = price_targets cfg a (Price md)"
    using analyzeMarketConditions_eq by blast
  have "StopLoss d = 0 \<and> TakeProfit1 d = 0 \<and> TakeProfit2 d = 0" if "a = ''HOLD''"
    using d(4) that by (simp add: price_targets_def Let_def)
  then show ?thesis using d(1,2,3) by blast
qed

text \<open>C10, an instance: the HOLD decision on readings on which no rule group votes.\<close>

theorem hold_leaves_targets_zero_witness:
  "\<exists>d. analyzeMarketConditions default_config (snapshot 100 50)
         (readings 50 1 1 130 90 100 11 11) = Inr d
     \<and> EntryPrice d = 100 \<and> Action d = ''HOLD''
     \<and> StopLoss d = 0 \<and> TakeProfit1 d = 0 \<and> TakeProfit2 d = 0"
  using hold_leaves_targets_zero
    [of default_config "snapshot 100 50" "readings 50 1 1 130 90 100 11 11"] hold_example
  by (auto simp: snapshot_def)

section \<open>Properties of the outcome predictor\<close>

lemma fst_add_if: "fst (add_if c n w sc) = fst sc + (if c then n else 0)"
  by (simp add: add_if_def)

lemma snd_add_if: "snd (add_if c n w sc) = snd sc + (if c then w else 0)"
  by (simp add: add_if_def)

lemma predict_scores_eq:
  "predict_scores f = (bullish_score f, bearish_score f, accumulated_confidence f)"
  unfolding predict_scores_def bullish_score_def bearish_score_def accumulated_confidence_def
  by (simp add: Let_def prod_eq_iff fst_add_if snd_add_if split del: if_split cong: if_cong)

lemma increment_bounds:
  "0 \<le> w \<Longrightarrow> 0 \<le> (if c then w else 0 :: rat) \<and> (if c then w else 0) \<le> w"
  by simp

lemma accumulated_confidence_bounds:
  "1 / 2 \<le> accumulated_confidence f \<and> accumulated_confidence f \<le> 2"
proof -
  define t1 :: rat where "t1 = (if RSIOversold f then 15 / 100 else 0)"
  define t2 :: rat where "t2 = (if MACDBullish f then 12 / 100 else 0)"
  define t3 :: rat where "t3 = (if BBPosition f < 2 / 10 then 8 / 100 else 0)"
  define t4 :: rat where "t4 = (if MarketSentiment f = ''extreme_fear'' then 10 / 100 else 0)"
  define t5 :: rat where "t5 = (if TrendDirection f = ''bullish'' then 5 / 100 else 0)"
  define t6 :: rat where "t6 = (if RSIOverbought f then 15 / 100 else 0)"
  define t7 :: rat where "t7 = (if \<not> MACDBullish f then 8 / 100 else 0)"
  define t8 :: rat where "t8 = (if BBPosition f > 8 / 10 then 8 / 100 else 0)"
  define t9 :: rat where "t9 = (if MarketSentiment f = ''extreme_greed'' then 10 / 100 else 0)"
  define t10 :: rat where "t10 = (if TrendDirection f = ''bearish'' then 5 / 100 else 0)"
  have b: "0 \<le> t1 \<and> t1 \<le> 15 / 100" "0 \<le> t2 \<and> t2 \<le> 12 / 100" "0 \<le> t3 \<and> t3 \<le> 8 / 100"
    "0 \<le> t4 \<and> t4 \<le> 10 / 100" "0 \<le> t5 \<and> t5 \<le> 5 / 100" "0 \<le> t6 \<and> t6 \<le> 15 / 100"
    "0 \<le> t7 \<and> t7 \<le> 8 / 100" "0 \<le> t8 \<and> t8 \<le> 8 / 100" "0 \<le> t9 \<and> t9 \<le> 10 / 100"
    "0 \<le> t10 \<and> t10 \<le> 5 / 100"
    unfolding t1_def t2_def t3_def t4_def t5_def t6_def t7_def t8_def t9_def t10_def
    by (rule increment_bounds, simp)+
  have "accumulated_confidence f = 1 / 2 + t1 + t2 + t3 + t4 + t5 + t6 + t7 + t8 + t9 + t10"
    unfolding accumulated_confidence_def t1_def t2_def t3_def t4_def t5_def t6_def t7_def t8_def
      t9_def t10_def ..
  then show ?thesis using b by linarith
qed

text \<open>
  C9, as amended.  \<open>PredictSignalOutcome\<close> returns "profit" exactly when one of the two
  additive scores is strictly greater than the other and is at least 3 (a tie is a loss,
  however high the scores); then the confidence is the accumulated confidence capped at 1.
  Otherwise it returns "loss" with the accumulated confidence multiplied by 0.5.  In all
  cases the confidence returned is at most 1.
\<close>

theorem outcome_rule:
  "PredictSignalOutcome f =
     (if (bearish_score f < bullish_score f \<and> 3 \<le> bullish_score f)
         \<or> (bullish_score f < bearish_score f \<and> 3 \<le> bearish_score f)
      then (''profit'', min 1 (accumulated_confidence f))
      else (''loss'', accumulated_confidence f * (5 / 10)))
   \<and> snd (PredictSignalOutcome f) \<le> 1"
proof -
  have le: "accumulated_confidence f * (5 / 10) \<le> 1"
    using accumulated_confidence_bounds [of f] by simp
  show ?thesis
  proof (cases "(bearish_score f < bullish_score f \<and> 3 \<le> bullish_score f)
         \<or> (bullish_score f < bearish_score f \<and> 3 \<le> bearish_score f)")
    case True
    then have "PredictSignalOutcome f = (''profit'', min 1 (accumulated_confidence f))"
      by (auto simp: PredictSignalOutcome_def predict_scores_eq min_def)
    then show ?thesis using True by simp
  next
    case False
    then have "PredictSignalOutcome f = (''loss'', accumulated_confidence f * (5 / 10))"
      using le by (auto simp: PredictSignalOutcome_def predict_scores_eq)
    then show ?thesis using False le by simp
  qed
qed

text \<open>C9, two instances: a bullish score of 8 against 0, and scores of 0 and 1.\<close>

theorem outcome_rule_witness:
  "PredictSignalOutcome (features_of True False True (1 / 10) ''bullish'' ''extreme_fear'')
     = (''profit'', 1)
   \<and> PredictSignalOutcome (features_of False False False (1 / 2) ''neutral'' ''neutral'')
     = (''loss'', 29 / 100)"
  using outcome_rule [of "features_of True False True (1 / 10) ''bullish'' ''extreme_fear''"]
    outcome_rule [of "features_of False False False (1 / 2) ''neutral'' ''neutral''"]
  by (simp add: features_of_def bullish_score_def bearish_score_def accumulated_confidence_def)

text \<open>
  C9 as stated fails on a tie: with an overbought RSI, a bullish MACD, a bullish trend and
  a price high in the band, both scores reach 3 and the outcome is "loss".
\<close>

theorem outcome_tie_counterexample:
  "predict_scores (features_of False True True (9 / 10) ''bullish'' ''neutral'') = (3, 3, 9 / 10)
   \<and> PredictSignalOutcome (features_of False True True (9 / 10) ''bullish'' ''neutral'')
     = (''loss'', 9 / 20)"
  by (simp add: PredictSignalOutcome_def predict_scores_def add_if_def features_of_def)

section \<open>Properties of the analysis pipeline\<close>

text \<open>
  C5.  For every market data whose klines parse to fewer than 26 bars,
  \<open>AnalyzeMarketData\<close> returns no indicator set and no error; \<open>analyzeCryptocurrency\<close>
  then hands the nil indicators to \<open>ExtractFeatures\<close> and the call panics with a nil
  dereference, where the claim has it end without a decision.
\<close>

theorem insufficient_klines_nil_dereference:
  assumes "length (parse_rows (NewFromString lib) (KlineData md)) < 26"
  shows "AnalyzeMarketData lib md = Inr (None, None)
       \<and> analyzeCryptocurrency lib bs crypto (Inr md) = Inl NilDereference"
proof -
  have "AnalyzeMarketData lib md = Inr (None, None)"
    using assms by (simp add: AnalyzeMarketData_def parseKlineData_def)
  then show ?thesis
    by (simp add: analyzeCryptocurrency_def bind_def ExtractFeatures_def)
qed

text \<open>C5, an instance: no klines at all, which is what \<open>GetMarketData\<close> supplies
  when the kline request fails.\<close>

theorem no_klines_nil_dereference:
  "KlineData (snapshot 100 50) = []
   \<and> AnalyzeMarketData no_library (snapshot 100 50) = Inr (None, None)
   \<and> analyzeCryptocurrency no_library idle_service ''BTC'' (Inr (snapshot 100 50))
       = Inl NilDereference"
  using insufficient_klines_nil_dereference
    [of no_library "snapshot 100 50" idle_service "''BTC''"]
  by (simp add: snapshot_def)

lemma strong_buy_example:
  "\<exists>d. analyzeMarketConditions default_config (snapshot 100 10)
         (readings 20 2 1 130 110 95 12 11) = Inr d
     \<and> Action d = ''BUY'' \<and> Confidence d = 1"
proof -
  have "votes_cast default_config (snapshot 100 10) (readings 20 2 1 130 110 95 12 11)
      = [cast ''BUY'' (3 / 10) (RSI_oversold 20), cast ''BUY'' (25 / 100) MACD_bullish_crossover,
         cast ''BUY'' (2 / 10) Price_below_lower_Bollinger_Band,
         cast ''BUY'' (15 / 100) (Extreme_fear_in_market 10),
         cast ''BUY'' (1 / 10) Price_above_SMA20_with_bullish_EMA_crossover]"
    by (simp add: votes_cast_def rsi_analysis_def macd_analysis_def bollinger_analysis_def
      fear_greed_analysis_def price_action_analysis_def default_config_def snapshot_def
      readings_def)
  then have "decide (votes_cast default_config (snapshot 100 10) (readings 20 2 1 130 110 95 12 11))
      = Inr (''BUY'', 1)"
    by (simp add: decide_def cast_def float_quotient_def bind_def)
  from analyzeMarketConditions_eq [OF this] show ?thesis by blast
qed

text \<open>
  C6.  \<open>GenerateSignal\<close> emits no signal when the confidence of the decision is below the
  configured minimum.  When it is not, and the database can be reached, a signal is emitted
  and stored whatever the number of signals stored already: the daily quota is not looked
  at, where the claim has the signal refused once the quota is exhausted.
\<close>

theorem signal_gate:
  assumes "analyzeMarketConditions (sg_cfg sg) md ind = Inr d"
  shows "(Confidence d < MinConfidenceThreshold (sg_cfg sg) \<longrightarrow>
            GenerateSignal sg md (Some ind) crypto = Inr (sg, None, None))
       \<and> (\<not> Confidence d < MinConfidenceThreshold (sg_cfg sg) \<and> reachable (sg_db sg) \<longrightarrow>
            (\<exists>sg' s. GenerateSignal sg md (Some ind) crypto = Inr (sg', Some s, None)
               \<and> Action_ts s = Action d \<and> ConfidenceScore s = Confidence d
               \<and> stored (sg_db sg') = stored (sg_db sg) @ [s]))"
  using assms
  by (simp add: GenerateSignal_def bind_def hasReachedDailyLimit_def CreateSignal_def Let_def)

text \<open>C6, an instance: ten signals stored, a limit of ten a day, and an eleventh signal
  emitted with confidence 1.\<close>

theorem daily_limit_not_checked:
  "int (length (stored (sg_db full_generator))) = MaxSignalsPerDay (sg_cfg full_generator)
   \<and> (\<exists>sg' s. GenerateSignal full_generator (snapshot 100 10)
                 (Some (readings 20 2 1 130 110 95 12 11)) ''BTC'' = Inr (sg', Some s, None)
         \<and> Action_ts s = ''BUY'' \<and> ConfidenceScore s = 1
         \<and> length (stored (sg_db sg')) = 11)"
proof -
  obtain d where d: "analyzeMarketConditions (sg_cfg full_generator) (snapshot 100 10)
         (readings 20 2 1 130 110 95 12 11) = Inr d" "Action d = ''BUY''" "Confidence d = 1"
    using strong_buy_example by (auto simp: full_generator_def)
  have "\<not> Confidence d < MinConfidenceThreshold (sg_cfg full_generator)"
    using d(3) by (simp add: full_generator_def default_config_def)
  moreover have "reachable (sg_db full_generator)" by (simp add: full_generator_def)
  ultimately obtain sg' s where
    "GenerateSignal full_generator (snapshot 100 10) (Some (readings 20 2 1 130 110 95 12 11)) ''BTC''
       = Inr (sg', Some s, None)"
    "Action_ts s = Action d" "ConfidenceScore s = Confidence d"
    "stored (sg_db sg') = stored (sg_db full_generator) @ [s]"
    using signal_gate [OF d(1), of "''BTC''"] by blast
  then show ?thesis using d(2,3) by (auto simp: full_generator_def default_config_def)
qed

end
